theory Spec2Isabelle
  imports Complex_Main "HOL-Library.List_Lexorder"
begin

section \<open>Python values and exceptions\<close>

text \<open>
  The payloads handled by \<^verbatim>\<open>lightning_service.py\<close> and \<^verbatim>\<open>singapore_geocoder.py\<close> are
  decoded JSON documents: \<^verbatim>\<open>None\<close>, booleans, unbounded integers, floats, strings, lists and
  dictionaries. The type parameter \<open>'f\<close> stands for Python's \<^verbatim>\<open>float\<close>; a dictionary is an
  association list read with \<open>map_of\<close>. A string is the list of its Unicode code points;
  \<open>ascii\<close> turns a literal of the source text into such a list.
\<close>

type_synonym pystr = "nat list"

definition ascii :: "string \<Rightarrow> pystr" where
  "ascii s = map of_char s"

datatype 'f json =
    JNull
  | JBool bool
  | JInt int
  | JFloat 'f
  | JStr pystr
  | JList "'f json list"
  | JDict "(pystr \<times> 'f json) list"

datatype pyerr = AttributeError | TypeError | ValueError | OverflowError

text \<open>
  The operations on floats that the two modules rely on are parameters of the model:
  \<^item> \<open>float_of_str\<close> is \<^verbatim>\<open>float(s)\<close> on a string, \<open>None\<close> standing for \<^verbatim>\<open>ValueError\<close>;
  \<^item> \<open>float_of_int\<close> is \<^verbatim>\<open>float(i)\<close> on an integer, \<open>None\<close> standing for \<^verbatim>\<open>OverflowError\<close>;
  \<^item> \<open>float_lit\<close> is the float denoted by a decimal literal of the source text;
  \<^item> \<open>float_le\<close> is \<^verbatim>\<open><=\<close> on floats and \<open>float_is_zero\<close> is \<^verbatim>\<open>== 0\<close>;
  \<^item> \<open>lt_other\<close> is \<^verbatim>\<open><\<close> on two values that are not both strings.
\<close>

record 'f float_ops =
  float_of_str :: "pystr \<Rightarrow> 'f option"
  float_of_int :: "int \<Rightarrow> 'f option"
  float_lit :: "rat \<Rightarrow> 'f"
  float_le :: "'f \<Rightarrow> 'f \<Rightarrow> bool"
  float_is_zero :: "'f \<Rightarrow> bool"
  lt_other :: "'f json \<Rightarrow> 'f json \<Rightarrow> pyerr + bool"

text \<open>\<^verbatim>\<open>d.get(key, default)\<close>: an \<^verbatim>\<open>AttributeError\<close> on anything that is not a dictionary.\<close>

fun py_get :: "'f json \<Rightarrow> pystr \<Rightarrow> 'f json \<Rightarrow> pyerr + 'f json" where
  "py_get (JDict kvs) k d = Inr (case map_of kvs k of Some v \<Rightarrow> v | None \<Rightarrow> d)"
| "py_get _ k d = Inl AttributeError"

text \<open>\<^verbatim>\<open>len(v)\<close>: a \<^verbatim>\<open>TypeError\<close> on a value without a length.\<close>

fun py_len :: "'f json \<Rightarrow> pyerr + nat" where
  "py_len (JStr s) = Inr (length s)"
| "py_len (JList xs) = Inr (length xs)"
| "py_len (JDict kvs) = Inr (length kvs)"
| "py_len _ = Inl TypeError"

text \<open>
  \<^verbatim>\<open>for x in v\<close>: the elements of a list, the characters of a string, the keys of a
  dictionary; a \<^verbatim>\<open>TypeError\<close> on anything else.
\<close>

fun py_iter :: "'f json \<Rightarrow> pyerr + 'f json list" where
  "py_iter (JList xs) = Inr xs"
| "py_iter (JStr s) = Inr (map (\<lambda>c. JStr [c]) s)"
| "py_iter (JDict kvs) = Inr (map (\<lambda>kv. JStr (fst kv)) kvs)"
| "py_iter _ = Inl TypeError"

text \<open>Truth value of a value in a condition.\<close>

fun truthy :: "'f float_ops \<Rightarrow> 'f json \<Rightarrow> bool" where
  "truthy ops JNull = False"
| "truthy ops (JBool b) = b"
| "truthy ops (JInt i) = (i \<noteq> 0)"
| "truthy ops (JFloat f) = (\<not> float_is_zero ops f)"
| "truthy ops (JStr s) = (s \<noteq> [])"
| "truthy ops (JList xs) = (xs \<noteq> [])"
| "truthy ops (JDict kvs) = (kvs \<noteq> [])"

text \<open>\<^verbatim>\<open>v != 0\<close> negated: the values equal to the integer zero.\<close>

fun equals_zero :: "'f float_ops \<Rightarrow> 'f json \<Rightarrow> bool" where
  "equals_zero ops (JInt i) = (i = 0)"
| "equals_zero ops (JBool b) = (\<not> b)"
| "equals_zero ops (JFloat f) = float_is_zero ops f"
| "equals_zero ops _ = False"

text \<open>
  \<^verbatim>\<open>float(v)\<close>: strings are parsed, numbers and booleans are converted, everything else
  is a \<^verbatim>\<open>TypeError\<close>.
\<close>

fun py_float :: "'f float_ops \<Rightarrow> 'f json \<Rightarrow> pyerr + 'f" where
  "py_float ops (JStr s) = (case float_of_str ops s of None \<Rightarrow> Inl ValueError | Some f \<Rightarrow> Inr f)"
| "py_float ops (JInt i) = (case float_of_int ops i of None \<Rightarrow> Inl OverflowError | Some f \<Rightarrow> Inr f)"
| "py_float ops (JBool b) =
     (case float_of_int ops (if b then 1 else 0) of None \<Rightarrow> Inl OverflowError | Some f \<Rightarrow> Inr f)"
| "py_float ops (JFloat f) = Inr f"
| "py_float ops _ = Inl TypeError"

text \<open>\<^verbatim>\<open>a < b\<close>: strings compare by code point, lexicographically.\<close>

fun py_lt :: "'f float_ops \<Rightarrow> 'f json \<Rightarrow> 'f json \<Rightarrow> pyerr + bool" where
  "py_lt ops (JStr a) (JStr b) = Inr (a < b)"
| "py_lt ops a b = lt_other ops a b"

text \<open>
  \<^verbatim>\<open>min(xs)\<close> and \<^verbatim>\<open>max(xs)\<close> on a non-empty list: the running extremum is replaced
  when the next item is strictly smaller (strictly greater).
\<close>

fun min_from :: "'f float_ops \<Rightarrow> 'f json \<Rightarrow> 'f json list \<Rightarrow> pyerr + 'f json" where
  "min_from ops m [] = Inr m"
| "min_from ops m (x # xs) =
     (case py_lt ops x m of
        Inl e \<Rightarrow> Inl e
      | Inr b \<Rightarrow> min_from ops (if b then x else m) xs)"

fun max_from :: "'f float_ops \<Rightarrow> 'f json \<Rightarrow> 'f json list \<Rightarrow> pyerr + 'f json" where
  "max_from ops m [] = Inr m"
| "max_from ops m (x # xs) =
     (case py_lt ops m x of
        Inl e \<Rightarrow> Inl e
      | Inr b \<Rightarrow> max_from ops (if b then x else m) xs)"

fun py_min :: "'f float_ops \<Rightarrow> 'f json list \<Rightarrow> pyerr + 'f json" where
  "py_min ops [] = Inl ValueError"
| "py_min ops (x # xs) = min_from ops x xs"

fun py_max :: "'f float_ops \<Rightarrow> 'f json list \<Rightarrow> pyerr + 'f json" where
  "py_max ops [] = Inl ValueError"
| "py_max ops (x # xs) = max_from ops x xs"

text \<open>Sequencing of computations that may raise.\<close>

fun ebind :: "pyerr + 'a \<Rightarrow> ('a \<Rightarrow> pyerr + 'b) \<Rightarrow> pyerr + 'b" where
  "ebind (Inl e) f = Inl e"
| "ebind (Inr x) f = f x"

section \<open>Strings and patterns\<close>

text \<open>
  The character classes of Python. \<^verbatim>\<open>[0-9]\<close> is the ten ASCII digits. \<^verbatim>\<open>str.strip()\<close>
  removes the characters for which \<^verbatim>\<open>str.isspace()\<close> holds, which are the code points
  listed in \<open>is_space\<close>. In a pattern on \<^verbatim>\<open>str\<close>, \<^verbatim>\<open>\d\<close> is any Unicode decimal digit and
  \<^verbatim>\<open>\w\<close> is any alphanumeric character or the underscore: below 256 these are the ASCII
  digits and the code points listed in \<open>is_word_char\<close>; from 256 on they are read from the
  Unicode database of the interpreter, a parameter of the model (\<open>decimal_above\<close>,
  \<open>word_above\<close>).
\<close>

record char_classes =
  decimal_above :: "nat \<Rightarrow> bool"
  word_above :: "nat \<Rightarrow> bool"

definition is_digit :: "nat \<Rightarrow> bool" where
  "is_digit c = (48 \<le> c \<and> c \<le> 57)"

definition is_space :: "nat \<Rightarrow> bool" where
  "is_space c =
     (c \<in> {9, 10, 11, 12, 13, 28, 29, 30, 31, 32, 133, 160, 5760, 8192, 8193, 8194, 8195,
            8196, 8197, 8198, 8199, 8200, 8201, 8202, 8232, 8233, 8239, 8287, 12288})"

definition is_decimal :: "char_classes \<Rightarrow> nat \<Rightarrow> bool" where
  "is_decimal cls c = (if c < 256 then is_digit c else decimal_above cls c)"

definition is_word_char :: "char_classes \<Rightarrow> nat \<Rightarrow> bool" where
  "is_word_char cls c =
     (if c < 256 then
        (48 \<le> c \<and> c \<le> 57) \<or> (65 \<le> c \<and> c \<le> 90) \<or> c = 95 \<or> (97 \<le> c \<and> c \<le> 122)
        \<or> c = 170 \<or> c = 178 \<or> c = 179 \<or> c = 181 \<or> c = 185 \<or> c = 186
        \<or> (188 \<le> c \<and> c \<le> 190) \<or> (192 \<le> c \<and> c \<le> 214) \<or> (216 \<le> c \<and> c \<le> 246)
        \<or> 248 \<le> c
      else word_above cls c)"

definition strip :: "pystr \<Rightarrow> pystr" where
  "strip s = dropWhile is_space (rev (dropWhile is_space (rev s)))"

text \<open>\<^verbatim>\<open>re.sub(r'[^0-9]', '', s)\<close>\<close>

definition remove_non_digits :: "pystr \<Rightarrow> pystr" where
  "remove_non_digits s = filter is_digit s"

text \<open>
  \<^verbatim>\<open>re.search(r'\b(\d{6})\b', s)\<close>: the group of the leftmost match, scanning from the
  left. A match starts where the previous character is not a word character (or at the
  start), takes six decimal digits, and ends where the next character is not a word
  character (or at the end). The flag says whether the character before the current
  position is a word character.
\<close>

fun search_from :: "char_classes \<Rightarrow> bool \<Rightarrow> pystr \<Rightarrow> pystr option" where
  "search_from cls prev_word [] = None"
| "search_from cls prev_word (c # cs) =
     (if \<not> prev_word \<and> 6 \<le> length (c # cs) \<and> list_all (is_decimal cls) (take 6 (c # cs))
         \<and> (case drop 6 (c # cs) of [] \<Rightarrow> True | d # _ \<Rightarrow> \<not> is_word_char cls d)
      then Some (take 6 (c # cs))
      else search_from cls (is_word_char cls c) cs)"

definition search_postal :: "char_classes \<Rightarrow> pystr \<Rightarrow> pystr option" where
  "search_postal cls s = search_from cls False s"

section \<open>Bounding boxes\<close>

text \<open>
  \<^verbatim>\<open>SINGAPORE_BOUNDS\<close> of the geocoder and \<^verbatim>\<open>singapore_bounds\<close> of the lightning service
  (the centre point is not used by the functions below).
\<close>

record 'f bounds =
  lat_min :: 'f
  lat_max :: 'f
  lon_min :: 'f
  lon_max :: 'f

definition SINGAPORE_BOUNDS :: "'f float_ops \<Rightarrow> 'f bounds" where
  "SINGAPORE_BOUNDS ops =
     \<lparr> lat_min = float_lit ops (116 / 100), lat_max = float_lit ops (148 / 100),
       lon_min = float_lit ops (10359 / 100), lon_max = float_lit ops (10404 / 100) \<rparr>"

definition singapore_bounds :: "'f float_ops \<Rightarrow> 'f bounds" where
  "singapore_bounds ops =
     \<lparr> lat_min = float_lit ops (95 / 100), lat_max = float_lit ops (175 / 100),
       lon_min = float_lit ops (10327 / 100), lon_max = float_lit ops (10452 / 100) \<rparr>"

text \<open>\<^verbatim>\<open>lat_min <= latitude <= lat_max and lon_min <= longitude <= lon_max\<close>\<close>

definition in_bounds :: "'f float_ops \<Rightarrow> 'f bounds \<Rightarrow> 'f \<Rightarrow> 'f \<Rightarrow> bool" where
  "in_bounds ops b la lo =
     (float_le ops (lat_min b) la \<and> float_le ops la (lat_max b)
      \<and> float_le ops (lon_min b) lo \<and> float_le ops lo (lon_max b))"

section \<open>Lightning service\<close>

text \<open>
  The dictionaries built by \<^verbatim>\<open>parse_lightning_response\<close>. The \<^verbatim>\<open>timestamp\<close> entry
  (the wall clock at the time of the call) is left out; \<^verbatim>\<open>time_range\<close> is flattened
  into its two entries.
\<close>

record 'f reading_data =
  reading_latitude :: 'f
  reading_longitude :: 'f
  reading_type :: "'f json"
  reading_description :: "'f json"
  reading_datetime :: "'f json"
  reading_record_datetime :: "'f json"

record 'f record_data =
  datetime :: "'f json"
  updated_timestamp :: "'f json"
  is_station_data :: "'f json"
  observation_type :: "'f json"
  readings_count :: nat
  readings :: "'f reading_data list"

record 'f parsed_data =
  api_status :: "'f json"
  error_message :: "'f json"
  pagination_token :: "'f json"
  records :: "'f record_data list"
  total_strikes :: nat
  records_with_lightning :: nat
  time_range_earliest :: "'f json"
  time_range_latest :: "'f json"

text \<open>
  The body of the loop over the readings of one period. The two \<^verbatim>\<open>float\<close> conversions
  (\<open>float_pair\<close>, the longitude converted only after the latitude has been) are inside
  the \<^verbatim>\<open>try\<close>, whose handler catches \<^verbatim>\<open>ValueError\<close> and \<^verbatim>\<open>TypeError\<close> and continues
  with the next reading (\<open>Inr None\<close>); any other exception leaves the function.
\<close>

definition float_pair ::
  "'f float_ops \<Rightarrow> 'f json \<Rightarrow> pystr \<Rightarrow> pystr \<Rightarrow> pyerr + ('f \<times> 'f)" where
  "float_pair ops d lat_key lon_key =
     ebind (py_get d lat_key (JInt 0)) (\<lambda>lat_v.
     ebind (py_float ops lat_v) (\<lambda>lat.
     ebind (py_get d lon_key (JInt 0)) (\<lambda>lon_v.
     ebind (py_float ops lon_v) (\<lambda>lon. Inr (lat, lon)))))"

definition parse_coordinates :: "'f float_ops \<Rightarrow> 'f json \<Rightarrow> pyerr + ('f \<times> 'f) option" where
  "parse_coordinates ops location =
     (case float_pair ops location (ascii ''latitude'') (ascii ''longitude'') of
        Inl ValueError \<Rightarrow> Inr None
      | Inl TypeError \<Rightarrow> Inr None
      | Inl e \<Rightarrow> Inl e
      | Inr c \<Rightarrow> Inr (Some c))"

definition process_reading ::
  "'f float_ops \<Rightarrow> 'f json \<Rightarrow> 'f json \<Rightarrow> pyerr + 'f reading_data option" where
  "process_reading ops record_datetime reading =
     ebind (py_get reading (ascii ''location'') (JDict [])) (\<lambda>location.
     ebind (parse_coordinates ops location) (\<lambda>coords.
       case coords of
         None \<Rightarrow> Inr None
       | Some (lat, lon) \<Rightarrow>
           ebind (py_get reading (ascii ''type'') (JStr (ascii ''Unknown''))) (\<lambda>ty.
           ebind (py_get reading (ascii ''text'') (JStr (ascii ''Unknown''))) (\<lambda>txt.
           ebind (py_get reading (ascii ''datetime'') JNull) (\<lambda>dt.
             Inr (Some \<lparr> reading_latitude = lat, reading_longitude = lon,
                          reading_type = ty, reading_description = txt,
                          reading_datetime = dt,
                          reading_record_datetime = record_datetime \<rparr>))))))"

text \<open>
  The loop over the readings of one period; the state is the list
  \<^verbatim>\<open>record_data['readings']\<close> and the counter \<^verbatim>\<open>parsed_data['total_strikes']\<close>.
\<close>

fun readings_loop ::
  "'f float_ops \<Rightarrow> 'f json \<Rightarrow> 'f json list \<Rightarrow> 'f reading_data list \<times> nat
     \<Rightarrow> pyerr + ('f reading_data list \<times> nat)" where
  "readings_loop ops record_datetime [] st = Inr st"
| "readings_loop ops record_datetime (reading # rest) (out, strikes) =
     (case process_reading ops record_datetime reading of
        Inl e \<Rightarrow> Inl e
      | Inr None \<Rightarrow> readings_loop ops record_datetime rest (out, strikes)
      | Inr (Some reading_data) \<Rightarrow>
          readings_loop ops record_datetime rest (out @ [reading_data], strikes + 1))"

text \<open>
  The body of the loop over the periods; the state is \<^verbatim>\<open>parsed_data\<close> and the list
  \<^verbatim>\<open>all_datetimes\<close>.
\<close>

definition process_record ::
  "'f float_ops \<Rightarrow> 'f json \<Rightarrow> 'f parsed_data \<times> 'f json list
     \<Rightarrow> pyerr + ('f parsed_data \<times> 'f json list)" where
  "process_record ops record st =
     (case st of (parsed, all_datetimes) \<Rightarrow>
     ebind (py_get record (ascii ''datetime'') JNull) (\<lambda>record_datetime.
     ebind (py_get record (ascii ''updatedTimestamp'') JNull) (\<lambda>updated.
     let all_datetimes' =
           (if truthy ops record_datetime then all_datetimes @ [record_datetime]
            else all_datetimes)
     in
     ebind (py_get record (ascii ''item'') (JDict [])) (\<lambda>item.
     ebind (py_get item (ascii ''isStationData'') (JBool False)) (\<lambda>station.
     ebind (py_get item (ascii ''type'') (JStr (ascii ''unknown''))) (\<lambda>obs_type.
     ebind (py_get item (ascii ''readings'') (JList [])) (\<lambda>rds.
     ebind (py_len rds) (\<lambda>n.
     let record_data = \<lparr> datetime = record_datetime, updated_timestamp = updated,
                          is_station_data = station, observation_type = obs_type,
                          readings_count = n, readings = [] \<rparr>
     in
     if truthy ops rds then
       ebind (py_iter rds) (\<lambda>items.
       ebind (readings_loop ops record_datetime items ([], total_strikes parsed)) (\<lambda>res.
         Inr (parsed \<lparr> records := records parsed @ [record_data \<lparr> readings := fst res \<rparr>],
                       total_strikes := snd res,
                       records_with_lightning := records_with_lightning parsed + 1 \<rparr>,
              all_datetimes')))
     else
       Inr (parsed \<lparr> records := records parsed @ [record_data] \<rparr>, all_datetimes')))))))))"

fun records_loop ::
  "'f float_ops \<Rightarrow> 'f json list \<Rightarrow> 'f parsed_data \<times> 'f json list
     \<Rightarrow> pyerr + ('f parsed_data \<times> 'f json list)" where
  "records_loop ops [] st = Inr st"
| "records_loop ops (record # rest) st =
     (case process_record ops record st of
        Inl e \<Rightarrow> Inl e
      | Inr st' \<Rightarrow> records_loop ops rest st')"

text \<open>
  \<^verbatim>\<open>parse_lightning_response\<close>: \<open>Inr None\<close> is the \<^verbatim>\<open>None\<close> returned for a falsy response
  or a status code other than 0.
\<close>

definition parse_lightning_response ::
  "'f float_ops \<Rightarrow> 'f json \<Rightarrow> pyerr + 'f parsed_data option" where
  "parse_lightning_response ops api_response =
     (if \<not> truthy ops api_response then Inr None
      else
        ebind (py_get api_response (ascii ''code'') JNull) (\<lambda>code.
        if \<not> equals_zero ops code then Inr None
        else
          ebind (py_get api_response (ascii ''errorMsg'') (JStr [])) (\<lambda>msg.
          ebind (py_get api_response (ascii ''data'') (JDict [])) (\<lambda>data_section.
          ebind (py_get data_section (ascii ''paginationToken'') JNull) (\<lambda>token.
          ebind (py_get data_section (ascii ''records'') (JList [])) (\<lambda>recs.
          ebind (py_len recs) (\<lambda>n.
          ebind (py_iter recs) (\<lambda>items.
          ebind (records_loop ops items
                   (\<lparr> api_status = code, error_message = msg, pagination_token = token,
                      records = [], total_strikes = 0, records_with_lightning = 0,
                      time_range_earliest = JNull, time_range_latest = JNull \<rparr>, []))
                (\<lambda>res.
            case res of (parsed, all_datetimes) \<Rightarrow>
              if all_datetimes \<noteq> [] then
                ebind (py_min ops all_datetimes) (\<lambda>earliest.
                ebind (py_max ops all_datetimes) (\<lambda>latest.
                  Inr (Some (parsed \<lparr> time_range_earliest := earliest,
                                      time_range_latest := latest \<rparr>))))
              else Inr (Some parsed))))))))))"

text \<open>
  \<^verbatim>\<open>extract_coordinates\<close> of the lightning service, on the value returned by
  \<^verbatim>\<open>parse_lightning_response\<close> (\<open>None\<close> when the parse failed). Every entry of a parsed
  record has its \<^verbatim>\<open>datetime\<close> key, so the default \<^verbatim>\<open>'Unknown'\<close> of the lookup is never
  taken. The second component is the number written to the log as the count of
  coordinates within the bounds, when the list is not empty.
\<close>

definition coord_data :: "'f json \<Rightarrow> 'f reading_data \<Rightarrow> 'f reading_data" where
  "coord_data record_time reading =
     \<lparr> reading_latitude = reading_latitude reading,
       reading_longitude = reading_longitude reading,
       reading_type = reading_type reading,
       reading_description = reading_description reading,
       reading_datetime = reading_datetime reading,
       reading_record_datetime = record_time \<rparr>"

definition valid_count :: "'f float_ops \<Rightarrow> 'f reading_data list \<Rightarrow> nat" where
  "valid_count ops coordinates_list =
     length (filter (\<lambda>coord. in_bounds ops (singapore_bounds ops)
                               (reading_latitude coord) (reading_longitude coord))
               coordinates_list)"

definition extract_coordinates ::
  "'f float_ops \<Rightarrow> 'f parsed_data option \<Rightarrow> 'f reading_data list \<times> nat option" where
  "extract_coordinates ops parsed =
     (case parsed of
        None \<Rightarrow> ([], None)
      | Some p \<Rightarrow>
          if records p = [] then ([], None)
          else
            let coordinates_list =
                  concat (map (\<lambda>record. map (coord_data (datetime record)) (readings record))
                            (records p))
            in if coordinates_list \<noteq> []
               then (coordinates_list, Some (valid_count ops coordinates_list))
               else (coordinates_list, None))"

section \<open>Geocoder\<close>

definition sample_entry :: "string \<Rightarrow> string \<Rightarrow> string \<Rightarrow> string \<Rightarrow> string \<Rightarrow> 'f json" where
  "sample_entry a b r la lo =
     JDict [(ascii ''ADDRESS'', JStr (ascii a)), (ascii ''BUILDING'', JStr (ascii b)),
            (ascii ''ROAD'', JStr (ascii r)), (ascii ''LATITUDE'', JStr (ascii la)),
            (ascii ''LONGITUDE'', JStr (ascii lo))]"

definition SAMPLE_GEOCODING_DATA :: "(pystr \<times> 'f json) list" where
  "SAMPLE_GEOCODING_DATA =
     [(ascii ''238874'', sample_entry ''ION Orchard, 2 Orchard Turn, Singapore 238874''
                     ''ION Orchard'' ''Orchard Turn'' ''1.304167'' ''103.833611''),
      (ascii ''018989'', sample_entry ''Marina Bay Sands, 10 Bayfront Avenue, Singapore 018989''
                     ''Marina Bay Sands'' ''Bayfront Avenue'' ''1.283611'' ''103.859722''),
      (ascii ''018956'', sample_entry ''Gardens by the Bay, 18 Marina Gardens Drive, Singapore 018956''
                     ''Gardens by the Bay'' ''Marina Gardens Drive'' ''1.281528'' ''103.865556''),
      (ascii ''079903'', sample_entry ''Singapore Zoo, 80 Mandai Lake Road, Singapore 079903''
                     ''Singapore Zoo'' ''Mandai Lake Road'' ''1.403611'' ''103.791944''),
      (ascii ''099253'', sample_entry ''Sentosa, 39 Artillery Avenue, Singapore 099253''
                     ''Sentosa'' ''Artillery Avenue'' ''1.246389'' ''103.822778'')]"

text \<open>
  The functions \<^verbatim>\<open>validate_postal_code\<close>, \<^verbatim>\<open>clean_postal_code\<close>, \<^verbatim>\<open>geocode_postal_code\<close>,
  \<^verbatim>\<open>geocode_address\<close> and \<^verbatim>\<open>geocode_building\<close> are modelled on their declared argument
  type \<^verbatim>\<open>str\<close>, on which the \<^verbatim>\<open>isinstance\<close> test of each always passes; \<^verbatim>\<open>geocode\<close>
  takes any value. \<^verbatim>\<open>POSTAL_CODE_REGEX\<close> is \<^verbatim>\<open>^\d{6}$\<close>; the cleaned text it is matched
  against holds ASCII digits only.
\<close>

definition validate_postal_code :: "char_classes \<Rightarrow> pystr \<Rightarrow> bool" where
  "validate_postal_code cls postal_code =
     (if postal_code = [] then False
      else let cleaned = remove_non_digits (strip postal_code)
           in length cleaned = 6 \<and> list_all (is_decimal cls) cleaned)"

definition clean_postal_code :: "pystr \<Rightarrow> pystr option" where
  "clean_postal_code postal_code =
     (if postal_code = [] then None
      else let cleaned = remove_non_digits (strip postal_code)
           in if length cleaned = 6 \<and> cleaned \<noteq> [] \<and> list_all is_digit cleaned
              then Some cleaned else None)"

text \<open>
  The network: \<open>net k q\<close> is what the \<^verbatim>\<open>try\<close> block of \<^verbatim>\<open>_make_api_call\<close> yields on the
  \<open>k\<close>-th request of a run, sent with search value \<open>q\<close>: the first entry of the
  \<^verbatim>\<open>results\<close> of a response with status 200 and a positive \<^verbatim>\<open>found\<close>, and \<open>None\<close> in
  every other case, all exceptions of the block being caught. The state threaded through
  the geocoding functions is the number of requests sent so far.
\<close>

type_synonym 'f network = "nat \<Rightarrow> pystr \<Rightarrow> 'f json option"

definition make_api_call :: "'f network \<Rightarrow> pystr \<Rightarrow> nat \<Rightarrow> 'f json option \<times> nat" where
  "make_api_call net query n =
     (let cleaned_query = strip query in
      case map_of SAMPLE_GEOCODING_DATA cleaned_query of
        Some entry \<Rightarrow> (Some entry, n)
      | None \<Rightarrow> (net n cleaned_query, Suc n))"

text \<open>
  \<^verbatim>\<open>_extract_coordinates\<close>: the handler catches \<^verbatim>\<open>ValueError\<close>, \<^verbatim>\<open>TypeError\<close> and
  \<^verbatim>\<open>KeyError\<close>; a point outside the bounds gives \<^verbatim>\<open>None\<close> as well.
\<close>

definition extract_coordinates_geo :: "'f float_ops \<Rightarrow> 'f json \<Rightarrow> pyerr + ('f \<times> 'f) option" where
  "extract_coordinates_geo ops geocoding_result =
     (case float_pair ops geocoding_result (ascii ''LATITUDE'') (ascii ''LONGITUDE'') of
        Inl ValueError \<Rightarrow> Inr None
      | Inl TypeError \<Rightarrow> Inr None
      | Inl e \<Rightarrow> Inl e
      | Inr (lat, lon) \<Rightarrow>
          if in_bounds ops (SINGAPORE_BOUNDS ops) lat lon then Inr (Some (lat, lon))
          else Inr None)"

text \<open>
  The result dictionary, without its \<^verbatim>\<open>timestamp\<close> entry (the wall clock). The entry
  \<^verbatim>\<open>query_type\<close> only ever holds one of four literals of the source.
\<close>

record 'f geo_result =
  query :: "'f json"
  query_type :: string
  success :: bool
  latitude :: "'f option"
  longitude :: "'f option"
  address :: "'f json"
  building :: "'f json"
  road :: "'f json"
  postal_code :: "pystr option"
  error :: "pystr option"

definition create_result_dict :: "'f json \<Rightarrow> string \<Rightarrow> 'f geo_result" where
  "create_result_dict q qt =
     \<lparr> query = q, query_type = qt, success = False, latitude = None, longitude = None,
       address = JNull, building = JNull, road = JNull, postal_code = None, error = None \<rparr>"

text \<open>
  The part shared by the three geocoding functions once the call has been made: the
  truth test of the call's outcome, the extraction of the coordinates and the copy of the
  address fields. \<open>scan\<close> says whether the address is searched for a postal code
  (\<^verbatim>\<open>re.search\<close> raises \<^verbatim>\<open>TypeError\<close> on a value that is not a string); \<open>missing\<close> is
  the error text of the function when the call gave nothing.
\<close>

definition fill_result ::
  "'f float_ops \<Rightarrow> char_classes \<Rightarrow> bool \<Rightarrow> string \<Rightarrow> 'f geo_result \<Rightarrow> 'f json option
     \<Rightarrow> pyerr + 'f geo_result" where
  "fill_result ops cls scan missing result geocoding_result =
     (case geocoding_result of
        None \<Rightarrow> Inr (result \<lparr> error := Some (ascii missing) \<rparr>)
      | Some g \<Rightarrow>
          if \<not> truthy ops g then Inr (result \<lparr> error := Some (ascii missing) \<rparr>)
          else
            ebind (extract_coordinates_geo ops g) (\<lambda>coordinates.
            case coordinates of
              None \<Rightarrow>
                Inr (result \<lparr> error := Some (ascii ''Failed to extract valid coordinates'') \<rparr>)
            | Some (lat, lon) \<Rightarrow>
                ebind (py_get g (ascii ''ADDRESS'') (JStr [])) (\<lambda>a.
                ebind (py_get g (ascii ''BUILDING'') (JStr [])) (\<lambda>b.
                ebind (py_get g (ascii ''ROAD'') (JStr [])) (\<lambda>r.
                let result' = result \<lparr> success := True, latitude := Some lat,
                                       longitude := Some lon, address := a,
                                       building := b, road := r \<rparr>
                in if \<not> scan then Inr result'
                   else (case a of
                           JStr txt \<Rightarrow>
                             (case search_postal cls txt of
                                Some code \<Rightarrow> Inr (result' \<lparr> postal_code := Some code \<rparr>)
                              | None \<Rightarrow> Inr result')
                         | _ \<Rightarrow> Inl TypeError))))))"

definition geocode_postal_code ::
  "'f float_ops \<Rightarrow> char_classes \<Rightarrow> 'f network \<Rightarrow> pystr \<Rightarrow> nat
     \<Rightarrow> (pyerr + 'f geo_result) \<times> nat" where
  "geocode_postal_code ops cls net code n =
     (let result = create_result_dict (JStr code) ''postal_code'' in
      case clean_postal_code code of
        None \<Rightarrow>
          (Inr (result \<lparr> error := Some (ascii ''Invalid postal code format: '' @ [39]
                                          @ code @ [39]) \<rparr>), n)
      | Some cleaned_code \<Rightarrow>
          (case make_api_call net cleaned_code n of
             (geocoding_result, n') \<Rightarrow>
               (fill_result ops cls False ''Postal code not found in OneMap database''
                  (result \<lparr> postal_code := Some cleaned_code \<rparr>) geocoding_result, n')))"

definition geocode_address ::
  "'f float_ops \<Rightarrow> char_classes \<Rightarrow> 'f network \<Rightarrow> pystr \<Rightarrow> nat
     \<Rightarrow> (pyerr + 'f geo_result) \<times> nat" where
  "geocode_address ops cls net addr n =
     (let result = create_result_dict (JStr addr) ''address'' in
      if addr = [] \<or> strip addr = [] then
        (Inr (result \<lparr> error := Some (ascii ''Invalid address: empty or non-string input'') \<rparr>),
         n)
      else
        (case make_api_call net (strip addr) n of
           (geocoding_result, n') \<Rightarrow>
             (fill_result ops cls True ''Address not found in OneMap database''
                result geocoding_result, n')))"

definition geocode_building ::
  "'f float_ops \<Rightarrow> char_classes \<Rightarrow> 'f network \<Rightarrow> pystr \<Rightarrow> nat
     \<Rightarrow> (pyerr + 'f geo_result) \<times> nat" where
  "geocode_building ops cls net building_name n =
     (let result = create_result_dict (JStr building_name) ''building'' in
      if building_name = [] \<or> strip building_name = [] then
        (Inr (result \<lparr> error :=
                Some (ascii ''Invalid building name: empty or non-string input'') \<rparr>), n)
      else
        (case make_api_call net (strip building_name) n of
           (geocoding_result, n') \<Rightarrow>
             (fill_result ops cls True ''Building not found in OneMap database''
                result geocoding_result, n')))"

definition invalid_query :: "'f json \<Rightarrow> 'f geo_result" where
  "invalid_query q =
     (create_result_dict q ''unknown'')
       \<lparr> error := Some (ascii ''Invalid query: empty or non-string input'') \<rparr>"

fun geocode ::
  "'f float_ops \<Rightarrow> char_classes \<Rightarrow> 'f network \<Rightarrow> 'f json \<Rightarrow> nat
     \<Rightarrow> (pyerr + 'f geo_result) \<times> nat" where
  "geocode ops cls net (JStr s) n =
     (if s = [] \<or> strip s = [] then (Inr (invalid_query (JStr s)), n)
      else
        let q = strip s in
        if validate_postal_code cls q then geocode_postal_code ops cls net q n
        else if search_postal cls q \<noteq> None then geocode_address ops cls net q n
        else geocode_building ops cls net q n)"
| "geocode ops cls net v n = (Inr (invalid_query v), n)"

text \<open>
  \<^verbatim>\<open>time.sleep\<close> is a parameter of the model: \<open>sleep d\<close> is \<open>None\<close> when the call returns
  and the exception it raises otherwise (\<^verbatim>\<open>ValueError\<close> for a negative delay,
  \<^verbatim>\<open>OverflowError\<close> for one too large for the clock). The time that passes is not
  modelled.

  \<^verbatim>\<open>batch_geocode\<close>: the loop appends one result per query and sleeps after every query
  but the last; an exception of \<^verbatim>\<open>geocode\<close> or of the sleep leaves the loop. The data
  frame is the list of results; the second component holds the two numbers of the summary
  (\<^verbatim>\<open>successful\<close>, \<^verbatim>\<open>failed\<close>), computed when the frame is not empty.
\<close>

fun batch_loop ::
  "'f float_ops \<Rightarrow> char_classes \<Rightarrow> ('f \<Rightarrow> pyerr option) \<Rightarrow> 'f network \<Rightarrow> 'f
     \<Rightarrow> 'f json list \<Rightarrow> 'f geo_result list \<Rightarrow> nat \<Rightarrow> (pyerr + 'f geo_result list) \<times> nat" where
  "batch_loop ops cls sleep net delay [] results n = (Inr results, n)"
| "batch_loop ops cls sleep net delay (q # rest) results n =
     (case geocode ops cls net q n of
        (Inl e, n') \<Rightarrow> (Inl e, n')
      | (Inr result, n') \<Rightarrow>
          (case (if rest \<noteq> [] then sleep delay else None) of
             Some e \<Rightarrow> (Inl e, n')
           | None \<Rightarrow> batch_loop ops cls sleep net delay rest (results @ [result]) n'))"

definition summary_statistics :: "'f geo_result list \<Rightarrow> (nat \<times> nat) option" where
  "summary_statistics df =
     (if df = [] then None
      else let successful = length (filter success df)
           in Some (successful, length df - successful))"

definition batch_geocode ::
  "'f float_ops \<Rightarrow> char_classes \<Rightarrow> ('f \<Rightarrow> pyerr option) \<Rightarrow> 'f network \<Rightarrow> 'f json list \<Rightarrow> 'f
     \<Rightarrow> nat \<Rightarrow> (pyerr + ('f geo_result list \<times> (nat \<times> nat) option)) \<times> nat" where
  "batch_geocode ops cls sleep net queries delay n =
     (case batch_loop ops cls sleep net delay queries [] n of
        (Inl e, n') \<Rightarrow> (Inl e, n')
      | (Inr df, n') \<Rightarrow> (Inr (df, summary_statistics df), n'))"

section \<open>Concrete parameters for evaluation\<close>

text \<open>
  To run the model on concrete payloads the float operations are instantiated with exact
  rationals: a numeral in plain decimal notation (optional sign, ASCII digits, optional
  fraction) denotes its exact value, every other string is rejected, and an integer
  converts when its magnitude is below \<open>2 ^ 1024 - 2 ^ 970\<close>, the first integer that
  rounds beyond the largest binary64. Rounding to binary64 is monotone, so
  an order between two decimals that holds here holds between the floats as well.
  Comparison of non-string values is numeric on numbers and a \<^verbatim>\<open>TypeError\<close> otherwise.
\<close>

fun digits_value :: "nat \<Rightarrow> pystr \<Rightarrow> nat" where
  "digits_value acc [] = acc"
| "digits_value acc (c # cs) = digits_value (10 * acc + (c - 48)) cs"

definition unsigned_decimal :: "pystr \<Rightarrow> rat option" where
  "unsigned_decimal s =
     (let ip = takeWhile is_digit s; r = dropWhile is_digit s in
      if r = [] then (if ip = [] then None else Some (of_nat (digits_value 0 ip)))
      else if hd r = 46 \<and> list_all is_digit (tl r) \<and> (ip \<noteq> [] \<or> tl r \<noteq> [])
      then Some (of_nat (digits_value 0 ip)
                 + of_nat (digits_value 0 (tl r)) / of_nat (10 ^ length (tl r)))
      else None)"

definition decimal_of_string :: "pystr \<Rightarrow> rat option" where
  "decimal_of_string s =
     (case s of
        [] \<Rightarrow> None
      | c # cs \<Rightarrow>
          if c = 45 then map_option uminus (unsigned_decimal cs)
          else if c = 43 then unsigned_decimal cs
          else unsigned_decimal s)"

fun number_value :: "rat json \<Rightarrow> rat option" where
  "number_value (JInt i) = Some (of_int i)"
| "number_value (JBool b) = Some (if b then 1 else 0)"
| "number_value (JFloat f) = Some f"
| "number_value _ = None"

definition exact_ops :: "rat float_ops" where
  "exact_ops =
     \<lparr> float_of_str = decimal_of_string,
       float_of_int = (\<lambda>i. if \<bar>i\<bar> < 2 ^ 1024 - 2 ^ 970 then Some (of_int i) else None),
       float_lit = (\<lambda>q. q),
       float_le = (\<lambda>a b. a \<le> b),
       float_is_zero = (\<lambda>a. a = 0),
       lt_other = (\<lambda>a b. case (number_value a, number_value b) of
                             (Some x, Some y) \<Rightarrow> Inr (x < y)
                           | _ \<Rightarrow> Inl TypeError) \<rparr>"

text \<open>
  The character classes above 255 are instantiated with the fullwidth digits
  \<^verbatim>\<open>U+FF10\<close> to \<^verbatim>\<open>U+FF19\<close>, which are decimal digits and word characters; the samples
  hold no other character above 255. The sleep is instantiated as on an interpreter whose
  clock counts nanoseconds in 64 bits: \<^verbatim>\<open>ValueError\<close> below zero, \<^verbatim>\<open>OverflowError\<close> from
  \<open>2 ^ 63\<close> nanoseconds on.
\<close>

definition sample_classes :: char_classes where
  "sample_classes =
     \<lparr> decimal_above = (\<lambda>c. 65296 \<le> c \<and> c \<le> 65305),
       word_above = (\<lambda>c. 65296 \<le> c \<and> c \<le> 65305) \<rparr>"

definition sample_sleep :: "rat \<Rightarrow> pyerr option" where
  "sample_sleep d =
     (if d < 0 then Some ValueError
      else if d * 10 ^ 9 < 2 ^ 63 then None
      else Some OverflowError)"

section \<open>Reading a payload declaratively\<close>

text \<open>
  The statements about \<^verbatim>\<open>parse_lightning_response\<close> speak of the periods of a batch, the
  readings of a period and the values handed to \<^verbatim>\<open>float\<close>. These accessors read them off
  the raw payload, with the defaults of the source; they are used in statements only.
\<close>

definition batch_periods :: "'f json \<Rightarrow> 'f json list" where
  "batch_periods api_response =
     (case ebind (py_get api_response (ascii ''data'') (JDict [])) (\<lambda>d.
           ebind (py_get d (ascii ''records'') (JList [])) py_iter) of
        Inr periods \<Rightarrow> periods
      | Inl _ \<Rightarrow> [])"

definition period_readings :: "'f json \<Rightarrow> 'f json list" where
  "period_readings period =
     (case ebind (py_get period (ascii ''item'') (JDict [])) (\<lambda>item.
           ebind (py_get item (ascii ''readings'') (JList [])) py_iter) of
        Inr rs \<Rightarrow> rs
      | Inl _ \<Rightarrow> [])"

definition period_field :: "string \<Rightarrow> 'f json \<Rightarrow> 'f json \<Rightarrow> 'f json" where
  "period_field key d period = (case py_get period (ascii key) d of Inr v \<Rightarrow> v | Inl _ \<Rightarrow> d)"

definition item_field :: "string \<Rightarrow> 'f json \<Rightarrow> 'f json \<Rightarrow> 'f json" where
  "item_field key d period =
     (case ebind (py_get period (ascii ''item'') (JDict [])) (\<lambda>item. py_get item (ascii key) d) of
        Inr v \<Rightarrow> v
      | Inl _ \<Rightarrow> d)"

definition period_datetime :: "'f json \<Rightarrow> 'f json" where
  "period_datetime period = period_field ''datetime'' JNull period"

text \<open>
  The value passed to \<^verbatim>\<open>float\<close> for one coordinate of a reading (the integer 0 when the
  key is missing), and whether the conversion succeeds.
\<close>

definition coordinate_value :: "string \<Rightarrow> 'f json \<Rightarrow> 'f json option" where
  "coordinate_value key reading =
     (case ebind (py_get reading (ascii ''location'') (JDict [])) (\<lambda>location.
           py_get location (ascii key) (JInt 0)) of
        Inr v \<Rightarrow> Some v
      | Inl _ \<Rightarrow> None)"

definition coerces :: "'f float_ops \<Rightarrow> 'f json \<Rightarrow> bool" where
  "coerces ops v = (case py_float ops v of Inr _ \<Rightarrow> True | Inl _ \<Rightarrow> False)"

definition both_coerce :: "'f float_ops \<Rightarrow> 'f json \<Rightarrow> bool" where
  "both_coerce ops reading =
     (case (coordinate_value ''latitude'' reading, coordinate_value ''longitude'' reading) of
        (Some la, Some lo) \<Rightarrow> coerces ops la \<and> coerces ops lo
      | _ \<Rightarrow> False)"

text \<open>The number of readings of a period whose two coordinates convert.\<close>

definition coerced_in_period :: "'f float_ops \<Rightarrow> 'f json \<Rightarrow> nat" where
  "coerced_in_period ops period = length (filter (both_coerce ops) (period_readings period))"

definition coerced_in_batch :: "'f float_ops \<Rightarrow> 'f json \<Rightarrow> nat" where
  "coerced_in_batch ops api_response =
     sum_list (map (coerced_in_period ops) (batch_periods api_response))"

text \<open>
  Two ways of counting periods: those with at least one reading whose coordinates
  convert, and those whose list of readings is not empty.
\<close>

definition periods_with_coerced_reading :: "'f float_ops \<Rightarrow> 'f json \<Rightarrow> nat" where
  "periods_with_coerced_reading ops api_response =
     length (filter (\<lambda>p. 0 < coerced_in_period ops p) (batch_periods api_response))"

definition periods_with_readings :: "'f json \<Rightarrow> nat" where
  "periods_with_readings api_response =
     length (filter (\<lambda>p. period_readings p \<noteq> []) (batch_periods api_response))"

text \<open>
  The period timestamps that are not \<^verbatim>\<open>None\<close>, and those that pass the truth test of
  the source (neither \<^verbatim>\<open>None\<close> nor empty).
\<close>

definition non_null_datetimes :: "'f json \<Rightarrow> 'f json list" where
  "non_null_datetimes api_response =
     filter (\<lambda>v. v \<noteq> JNull) (map period_datetime (batch_periods api_response))"

definition timestamps :: "'f float_ops \<Rightarrow> 'f json \<Rightarrow> 'f json list" where
  "timestamps ops api_response =
     filter (truthy ops) (map period_datetime (batch_periods api_response))"

text \<open>
  The readings a period contributes to the output, and the record built for a period.
\<close>

definition emitted :: "'f float_ops \<Rightarrow> 'f json \<Rightarrow> 'f json list \<Rightarrow> 'f reading_data list" where
  "emitted ops rdt xs =
     List.map_filter (\<lambda>x. case process_reading ops rdt x of Inr r \<Rightarrow> r | Inl _ \<Rightarrow> None) xs"

definition parsed_record :: "'f float_ops \<Rightarrow> 'f json \<Rightarrow> 'f record_data" where
  "parsed_record ops period =
     \<lparr> datetime = period_datetime period,
       updated_timestamp = period_field ''updatedTimestamp'' JNull period,
       is_station_data = item_field ''isStationData'' (JBool False) period,
       observation_type = item_field ''type'' (JStr (ascii ''unknown'')) period,
       readings_count = length (period_readings period),
       readings = emitted ops (period_datetime period) (period_readings period) \<rparr>"

text \<open>
  A coordinate that is present but not numeric: a string that \<^verbatim>\<open>float\<close> rejects, or a
  value of a type that \<^verbatim>\<open>float\<close> does not take. A reading that omits a coordinate key.
\<close>

fun non_numeric :: "'f float_ops \<Rightarrow> 'f json \<Rightarrow> bool" where
  "non_numeric ops (JStr s) = (float_of_str ops s = None)"
| "non_numeric ops JNull = True"
| "non_numeric ops (JList xs) = True"
| "non_numeric ops (JDict kvs) = True"
| "non_numeric ops _ = False"

definition present :: "string \<Rightarrow> 'f json \<Rightarrow> 'f json option" where
  "present key reading =
     (case py_get reading (ascii ''location'') (JDict []) of
        Inr (JDict kvs) \<Rightarrow> map_of kvs (ascii key)
      | _ \<Rightarrow> None)"

definition omits :: "string \<Rightarrow> 'f json \<Rightarrow> bool" where
  "omits key reading =
     (case py_get reading (ascii ''location'') (JDict []) of
        Inr (JDict kvs) \<Rightarrow> map_of kvs (ascii key) = None
      | _ \<Rightarrow> False)"

section \<open>Sample payloads\<close>

definition reading_at :: "'f json \<Rightarrow> 'f json \<Rightarrow> 'f json" where
  "reading_at la lo = JDict [(ascii ''location'', JDict [(ascii ''latitude'', la), (ascii ''longitude'', lo)])]"

definition period_with :: "string \<Rightarrow> 'f json list \<Rightarrow> 'f json" where
  "period_with t rs = JDict [(ascii ''datetime'', JStr (ascii t)), (ascii ''item'', JDict [(ascii ''readings'', JList rs)])]"

definition batch_of :: "'f json list \<Rightarrow> 'f json" where
  "batch_of ps = JDict [(ascii ''code'', JInt 0), (ascii ''data'', JDict [(ascii ''records'', JList ps)])]"

definition parsed_period :: "string \<Rightarrow> nat \<Rightarrow> rat reading_data list \<Rightarrow> rat record_data" where
  "parsed_period t n rs =
     \<lparr> datetime = JStr (ascii t), updated_timestamp = JNull, is_station_data = JBool False,
       observation_type = JStr (ascii ''unknown''), readings_count = n, readings = rs \<rparr>"

definition strike :: "rat \<Rightarrow> rat \<Rightarrow> string \<Rightarrow> rat reading_data" where
  "strike la lo t =
     \<lparr> reading_latitude = la, reading_longitude = lo, reading_type = JStr (ascii ''Unknown''),
       reading_description = JStr (ascii ''Unknown''), reading_datetime = JNull,
       reading_record_datetime = JStr (ascii t) \<rparr>"

definition parsed_of ::
  "rat record_data list \<Rightarrow> nat \<Rightarrow> nat \<Rightarrow> rat json \<Rightarrow> rat json \<Rightarrow> rat parsed_data" where
  "parsed_of rs strikes periods e l =
     \<lparr> api_status = JInt 0, error_message = JStr [], pagination_token = JNull,
       records = rs, total_strikes = strikes, records_with_lightning = periods,
       time_range_earliest = e, time_range_latest = l \<rparr>"

text \<open>
  Three periods: one with a valid and an invalid reading, one without readings, one whose
  only reading is invalid.
\<close>

definition sample_batch :: "rat json" where
  "sample_batch = batch_of
     [period_with ''2024-01-15T10:00:00+08:00''
        [reading_at (JStr (ascii ''1.3521'')) (JStr (ascii ''103.8198'')),
         reading_at (JStr (ascii ''invalid'')) (JStr (ascii ''103.8198''))],
      period_with ''2024-01-15T09:30:00+08:00'' [],
      period_with ''2024-01-15T10:30:00+08:00''
        [reading_at (JStr (ascii ''1.3521'')) (JStr (ascii ''valid_coord''))]]"

definition sample_parsed :: "rat parsed_data" where
  "sample_parsed = parsed_of
     [parsed_period ''2024-01-15T10:00:00+08:00'' 2
        [strike (13521 / 10000) (1038198 / 10000) ''2024-01-15T10:00:00+08:00''],
      parsed_period ''2024-01-15T09:30:00+08:00'' 0 [],
      parsed_period ''2024-01-15T10:30:00+08:00'' 1 []]
     1 2 (JStr (ascii ''2024-01-15T09:30:00+08:00'')) (JStr (ascii ''2024-01-15T10:30:00+08:00''))"

text \<open>One period whose only reading has a latitude that is not a number.\<close>

definition invalid_only_batch :: "rat json" where
  "invalid_only_batch = batch_of
     [period_with ''2024-01-15T10:00:00+08:00''
        [reading_at (JStr (ascii ''invalid'')) (JStr (ascii ''103.8198''))]]"

definition invalid_only_parsed :: "rat parsed_data" where
  "invalid_only_parsed = parsed_of
     [parsed_period ''2024-01-15T10:00:00+08:00'' 1 []]
     0 1 (JStr (ascii ''2024-01-15T10:00:00+08:00'')) (JStr (ascii ''2024-01-15T10:00:00+08:00''))"

text \<open>Two periods, the first with the empty string as its timestamp.\<close>

definition empty_datetime_batch :: "rat json" where
  "empty_datetime_batch = batch_of
     [period_with [] [], period_with ''2024-01-15T10:00:00+08:00'' []]"

definition empty_datetime_parsed :: "rat parsed_data" where
  "empty_datetime_parsed = parsed_of
     [parsed_period [] 0 [], parsed_period ''2024-01-15T10:00:00+08:00'' 0 []]
     0 0 (JStr (ascii ''2024-01-15T10:00:00+08:00'')) (JStr (ascii ''2024-01-15T10:00:00+08:00''))"

text \<open>
  One reading whose longitude is not a number and whose latitude is the integer
  \<open>10 ^ 400\<close>, as \<^verbatim>\<open>json\<close> decodes a numeral of 401 digits.
\<close>

definition overflow_batch :: "rat json" where
  "overflow_batch = batch_of
     [period_with ''2024-01-15T10:00:00+08:00''
        [reading_at (JInt (10 ^ 400)) (JStr (ascii ''abc''))]]"

text \<open>One reading without a latitude whose longitude is not a number.\<close>

definition missing_latitude_reading :: "rat json" where
  "missing_latitude_reading = JDict [(ascii ''location'', JDict [(ascii ''longitude'', JStr (ascii ''abc''))])]"

definition missing_latitude_batch :: "rat json" where
  "missing_latitude_batch = batch_of
     [period_with ''2024-01-15T10:00:00+08:00'' [missing_latitude_reading]]"

text \<open>Two readings, one without a latitude and one without a longitude.\<close>

definition no_latitude_reading :: "rat json" where
  "no_latitude_reading = JDict [(ascii ''location'', JDict [(ascii ''longitude'', JStr (ascii ''103.8198''))])]"

definition no_longitude_reading :: "rat json" where
  "no_longitude_reading = JDict [(ascii ''location'', JDict [(ascii ''latitude'', JStr (ascii ''1.3521''))])]"

definition defaulted_batch :: "rat json" where
  "defaulted_batch = batch_of
     [period_with ''2024-01-15T10:00:00+08:00'' [no_latitude_reading, no_longitude_reading]]"

definition defaulted_parsed :: "rat parsed_data" where
  "defaulted_parsed = parsed_of
     [parsed_period ''2024-01-15T10:00:00+08:00'' 2
        [strike 0 (1038198 / 10000) ''2024-01-15T10:00:00+08:00'',
         strike (13521 / 10000) 0 ''2024-01-15T10:00:00+08:00'']]
     2 1 (JStr (ascii ''2024-01-15T10:00:00+08:00'')) (JStr (ascii ''2024-01-15T10:00:00+08:00''))"

text \<open>
  A parsed summary with a point in Singapore and a point in New York, as in the unit test
  of the bounds.
\<close>

definition far_point_parsed :: "rat parsed_data" where
  "far_point_parsed = parsed_of
     [parsed_period ''2024-01-15T10:00:00+08:00'' 2
        [strike (13521 / 10000) (1038198 / 10000) ''2024-01-15T10:00:00+08:00'',
         strike (407128 / 10000) (- 740060 / 10000) ''2024-01-15T10:00:00+08:00'']]
     2 1 (JStr (ascii ''2024-01-15T10:00:00+08:00'')) (JStr (ascii ''2024-01-15T10:00:00+08:00''))"

named_theorems eval_defs \<open>definitions unfolded to run the model on a sample\<close>

declare
  parse_lightning_response_def [eval_defs] process_record_def [eval_defs]
  process_reading_def [eval_defs] parse_coordinates_def [eval_defs]
  float_pair_def [eval_defs] exact_ops_def [eval_defs] decimal_of_string_def [eval_defs]
  unsigned_decimal_def [eval_defs] is_digit_def [eval_defs] Let_def [eval_defs]
  ascii_def [eval_defs] item_field_def [eval_defs]
  reading_at_def [eval_defs] period_with_def [eval_defs] batch_of_def [eval_defs]
  parsed_period_def [eval_defs] strike_def [eval_defs] parsed_of_def [eval_defs]
  batch_periods_def [eval_defs] period_readings_def [eval_defs] period_field_def [eval_defs]
  period_datetime_def [eval_defs] coordinate_value_def [eval_defs] coerces_def [eval_defs]
  both_coerce_def [eval_defs] coerced_in_period_def [eval_defs] coerced_in_batch_def [eval_defs]
  periods_with_coerced_reading_def [eval_defs] periods_with_readings_def [eval_defs]
  non_null_datetimes_def [eval_defs] timestamps_def [eval_defs]
  extract_coordinates_def [eval_defs] coord_data_def [eval_defs] valid_count_def [eval_defs]
  in_bounds_def [eval_defs] singapore_bounds_def [eval_defs] SINGAPORE_BOUNDS_def [eval_defs]
  omits_def [eval_defs] present_def [eval_defs]

text \<open>
  Every reading of the parsed records, in order, with the timestamp of its record: what
  \<^verbatim>\<open>extract_coordinates\<close> is to return.
\<close>

definition all_readings :: "'f parsed_data \<Rightarrow> 'f reading_data list" where
  "all_readings parsed =
     concat (map (\<lambda>record. map (coord_data (datetime record)) (readings record))
               (records parsed))"

definition readings_total :: "'f parsed_data \<Rightarrow> nat" where
  "readings_total parsed = sum_list (map (\<lambda>record. length (readings record)) (records parsed))"

definition missing_latitude_parsed :: "rat parsed_data" where
  "missing_latitude_parsed = parsed_of
     [parsed_period ''2024-01-15T10:00:00+08:00'' 1 []]
     0 1 (JStr (ascii ''2024-01-15T10:00:00+08:00'')) (JStr (ascii ''2024-01-15T10:00:00+08:00''))"

declare all_readings_def [eval_defs] readings_total_def [eval_defs]

section \<open>Statements about the geocoder\<close>

text \<open>
  The shape of a result: a success carries both coordinates and no error, a failure
  carries an error and no coordinate.
\<close>

definition result_invariant :: "'f geo_result \<Rightarrow> bool" where
  "result_invariant r =
     ((success r \<and> latitude r \<noteq> None \<and> longitude r \<noteq> None \<and> error r = None)
      \<or> (\<not> success r \<and> error r \<noteq> None \<and> latitude r = None \<and> longitude r = None))"

text \<open>
  A six-digit run that stands alone at position \<open>i\<close> of a string, for a given notion of
  digit: six digits, with no word character right before and none right after.
\<close>

definition standalone_at :: "(nat \<Rightarrow> bool) \<Rightarrow> char_classes \<Rightarrow> pystr \<Rightarrow> nat \<Rightarrow> bool" where
  "standalone_at digit cls s i =
     (i + 6 \<le> length s \<and> list_all digit (take 6 (drop i s))
      \<and> (i = 0 \<or> \<not> is_word_char cls (s ! (i - 1)))
      \<and> (i + 6 = length s \<or> \<not> is_word_char cls (s ! (i + 6))))"

definition standalone_six_digits :: "(nat \<Rightarrow> bool) \<Rightarrow> char_classes \<Rightarrow> pystr \<Rightarrow> bool" where
  "standalone_six_digits digit cls s = list_ex (standalone_at digit cls s) [0 ..< length s]"

text \<open>
  The kinds of query in the order of the specification: a value that is not a string, or
  a string with nothing left after \<^verbatim>\<open>strip\<close>; six digits once every other character is
  removed; a standalone six-digit run; anything else. \<open>kind_of\<close> takes the notion of
  digit of the second and of the third test. The source removes what is not an ASCII digit
  and then searches for decimal digits of any script (\<open>query_kind\<close>); a reading of the
  specification has one notion of digit for both tests.
\<close>

fun blank_or_non_string :: "'f json \<Rightarrow> bool" where
  "blank_or_non_string (JStr s) = (strip s = [])"
| "blank_or_non_string _ = True"

fun query_text :: "'f json \<Rightarrow> pystr" where
  "query_text (JStr s) = s"
| "query_text _ = []"

definition kind_of ::
  "(nat \<Rightarrow> bool) \<Rightarrow> (nat \<Rightarrow> bool) \<Rightarrow> char_classes \<Rightarrow> 'f json \<Rightarrow> string" where
  "kind_of digit run_digit cls q =
     (if blank_or_non_string q then ''unknown''
      else if length (filter digit (query_text q)) = 6 then ''postal_code''
      else if standalone_six_digits run_digit cls (strip (query_text q)) then ''address''
      else ''building'')"

definition query_kind :: "char_classes \<Rightarrow> 'f json \<Rightarrow> string" where
  "query_kind cls q = kind_of is_digit (is_decimal cls) cls q"

text \<open>The state in which the \<open>i\<close>-th query of a batch is geocoded.\<close>

definition state_before ::
  "'f float_ops \<Rightarrow> char_classes \<Rightarrow> 'f network \<Rightarrow> 'f json list \<Rightarrow> nat \<Rightarrow> nat \<Rightarrow> nat" where
  "state_before ops cls net queries n i =
     foldl (\<lambda>k q. snd (geocode ops cls net q k)) n (take i queries)"

text \<open>
  Sample networks: one without any answer, and one that answers every request with a
  found result whose \<^verbatim>\<open>ADDRESS\<close> is \<^verbatim>\<open>null\<close>. The results of the samples.
\<close>

definition no_network :: "rat network" where
  "no_network k q = None"

definition null_address_network :: "rat network" where
  "null_address_network k q =
     Some (JDict [(ascii ''LATITUDE'', JStr (ascii ''1.3'')),
                  (ascii ''LONGITUDE'', JStr (ascii ''103.8'')),
                  (ascii ''ADDRESS'', JNull)])"

definition ion_orchard :: "rat geo_result" where
  "ion_orchard =
     \<lparr> query = JStr (ascii ''238874''), query_type = ''postal_code'', success = True,
       latitude = Some (1304167 / 1000000), longitude = Some (103833611 / 1000000),
       address = JStr (ascii ''ION Orchard, 2 Orchard Turn, Singapore 238874''),
       building = JStr (ascii ''ION Orchard''), road = JStr (ascii ''Orchard Turn''),
       postal_code = Some (ascii ''238874''), error = None \<rparr>"

definition marina_bay_sands :: "rat geo_result" where
  "marina_bay_sands =
     \<lparr> query = JStr (ascii ''018989''), query_type = ''postal_code'', success = True,
       latitude = Some (1283611 / 1000000), longitude = Some (103859722 / 1000000),
       address = JStr (ascii ''Marina Bay Sands, 10 Bayfront Avenue, Singapore 018989''),
       building = JStr (ascii ''Marina Bay Sands''), road = JStr (ascii ''Bayfront Avenue''),
       postal_code = Some (ascii ''018989''), error = None \<rparr>"

definition not_a_place :: "rat geo_result" where
  "not_a_place =
     (create_result_dict (JStr (ascii ''not-a-real-place-xyz'')) ''building'')
       \<lparr> error := Some (ascii ''Building not found in OneMap database'') \<rparr>"

text \<open>
  The query made of the six fullwidth digits \<^verbatim>\<open>U+FF12 U+FF13 U+FF18 U+FF18 U+FF17 U+FF14\<close>,
  and the result of \<^verbatim>\<open>geocode\<close> on it without a network.
\<close>

definition fullwidth_query :: "rat json" where
  "fullwidth_query = JStr [65298, 65299, 65304, 65304, 65303, 65300]"

definition fullwidth_result :: "rat geo_result" where
  "fullwidth_result =
     (create_result_dict fullwidth_query ''address'')
       \<lparr> error := Some (ascii ''Address not found in OneMap database'') \<rparr>"



declare
  make_api_call_def [eval_defs] extract_coordinates_geo_def [eval_defs]
  create_result_dict_def [eval_defs] fill_result_def [eval_defs]
  geocode_postal_code_def [eval_defs] geocode_address_def [eval_defs]
  geocode_building_def [eval_defs] invalid_query_def [eval_defs]
  validate_postal_code_def [eval_defs] clean_postal_code_def [eval_defs]
  remove_non_digits_def [eval_defs] strip_def [eval_defs] is_space_def [eval_defs]
  is_word_char_def [eval_defs] is_decimal_def [eval_defs] search_postal_def [eval_defs]
  SAMPLE_GEOCODING_DATA_def [eval_defs] sample_entry_def [eval_defs]
  batch_geocode_def [eval_defs] summary_statistics_def [eval_defs]
  result_invariant_def [eval_defs] no_network_def [eval_defs]
  null_address_network_def [eval_defs] sample_classes_def [eval_defs]
  sample_sleep_def [eval_defs]
  ion_orchard_def [eval_defs] marina_bay_sands_def [eval_defs] not_a_place_def [eval_defs]
  fullwidth_query_def [eval_defs] fullwidth_result_def [eval_defs]
  state_before_def [eval_defs]

section \<open>Properties of the lightning parser\<close>

subsection \<open>Auxiliary facts\<close>

lemma ascii_eq_iff [simp]: "ascii s = ascii t \<longleftrightarrow> s = t"
  by (simp add: ascii_def inj_map_eq_map inj_on_def)

lemma ascii_Nil [simp]: "ascii [] = []"
  by (simp add: ascii_def)

lemma ascii_eq_Nil [simp]: "ascii s = [] \<longleftrightarrow> s = []"
  by (simp add: ascii_def)

lemma ebind_Inr_iff: "ebind m f = Inr y \<longleftrightarrow> (\<exists>x. m = Inr x \<and> f x = Inr y)"
  by (cases m) auto

lemma py_get_Inr: "py_get v k d = Inr w \<Longrightarrow> \<exists>kvs. v = JDict kvs"
  by (cases v) auto

lemma ebind_Inl_iff: "ebind m f = Inl e \<longleftrightarrow> m = Inl e \<or> (\<exists>x. m = Inr x \<and> f x = Inl e)"
  by (cases m) auto

lemma float_pair_Inr:
  "float_pair ops d k1 k2 = Inr (la, lo) \<longleftrightarrow>
     (\<exists>a b. py_get d k1 (JInt 0) = Inr a \<and> py_float ops a = Inr la
          \<and> py_get d k2 (JInt 0) = Inr b \<and> py_float ops b = Inr lo)"
  by (auto simp: float_pair_def ebind_Inr_iff)

lemma py_get_Inl: "py_get v k d = Inl e \<Longrightarrow> e = AttributeError"
  by (cases v) auto

lemma float_pair_Inl:
  "float_pair ops d k1 k2 = Inl e \<Longrightarrow> e = ValueError \<or> e = TypeError \<Longrightarrow>
     (\<exists>a. py_get d k1 (JInt 0) = Inr a \<and>
        (py_float ops a = Inl e \<or>
         (\<exists>b. py_get d k2 (JInt 0) = Inr b \<and> py_float ops b = Inl e)))"
  by (auto simp: float_pair_def ebind_Inl_iff dest: py_get_Inl)

lemma parse_coordinates_Some:
  "parse_coordinates ops location = Inr (Some c) \<longleftrightarrow> float_pair ops location (ascii ''latitude'') (ascii ''longitude'') = Inr c"
  by (auto simp: parse_coordinates_def split: sum.splits pyerr.splits)

lemma parse_coordinates_None:
  "parse_coordinates ops location = Inr None \<longleftrightarrow>
     float_pair ops location (ascii ''latitude'') (ascii ''longitude'') = Inl ValueError
     \<or> float_pair ops location (ascii ''latitude'') (ascii ''longitude'') = Inl TypeError"
  by (auto simp: parse_coordinates_def split: sum.splits pyerr.splits)

lemma process_reading_Inr:
  assumes "process_reading ops rdt x = Inr r"
  shows "\<exists>loc c. py_get x (ascii ''location'') (JDict []) = Inr loc
           \<and> parse_coordinates ops loc = Inr c \<and> (c = None \<longleftrightarrow> r = None)"
proof -
  from assms obtain loc c where
    loc: "py_get x (ascii ''location'') (JDict []) = Inr loc" and
    c: "parse_coordinates ops loc = Inr c" and
    r: "(case c of None \<Rightarrow> Inr None
         | Some (lat, lon) \<Rightarrow>
             ebind (py_get x (ascii ''type'') (JStr (ascii ''Unknown''))) (\<lambda>ty.
             ebind (py_get x (ascii ''text'') (JStr (ascii ''Unknown''))) (\<lambda>txt.
             ebind (py_get x (ascii ''datetime'') JNull) (\<lambda>dt.
               Inr (Some \<lparr> reading_latitude = lat, reading_longitude = lon,
                            reading_type = ty, reading_description = txt,
                            reading_datetime = dt,
                            reading_record_datetime = rdt \<rparr>))))) = Inr r"
    unfolding process_reading_def ebind_Inr_iff by blast
  from r have "c = None \<longleftrightarrow> r = None"
    by (cases c) (auto simp: ebind_Inr_iff)
  with loc c show ?thesis by blast
qed

lemma both_coerce_iff:
  "both_coerce ops x \<longleftrightarrow>
     (\<exists>loc c. py_get x (ascii ''location'') (JDict []) = Inr loc
        \<and> float_pair ops loc (ascii ''latitude'') (ascii ''longitude'') = Inr c)"
  by (cases "py_get x (ascii ''location'') (JDict [])")
     (auto simp: both_coerce_def coordinate_value_def coerces_def float_pair_def
        ebind_Inr_iff split: sum.splits)

lemma process_reading_Some:
  "process_reading ops rdt x = Inr (Some d) \<Longrightarrow> both_coerce ops x"
  by (drule process_reading_Inr) (auto simp: both_coerce_iff parse_coordinates_Some)

lemma process_reading_None:
  "process_reading ops rdt x = Inr None \<Longrightarrow> \<not> both_coerce ops x"
  by (drule process_reading_Inr) (auto simp: both_coerce_iff parse_coordinates_None)

lemma readings_loop_count:
  "readings_loop ops rdt xs (out, k) = Inr (out', k') \<Longrightarrow>
     k' = k + length (filter (both_coerce ops) xs)"
proof (induction xs arbitrary: out k)
  case Nil
  then show ?case by simp
next
  case (Cons x xs)
  show ?case
  proof (cases "process_reading ops rdt x")
    case (Inl e)
    with Cons.prems show ?thesis by simp
  next
    case (Inr r)
    show ?thesis
    proof (cases r)
      case None
      with Inr Cons.prems have "readings_loop ops rdt xs (out, k) = Inr (out', k')" by simp
      from Cons.IH [OF this] process_reading_None [of ops rdt x] Inr None
      show ?thesis by simp
    next
      case (Some d)
      with Inr Cons.prems
      have "readings_loop ops rdt xs (out @ [d], k + 1) = Inr (out', k')" by simp
      from Cons.IH [OF this] process_reading_Some [of ops rdt x d] Inr Some
      show ?thesis by simp
    qed
  qed
qed

lemma readings_loop_out:
  "readings_loop ops rdt xs (out, k) = Inr (out', k') \<Longrightarrow> out' = out @ emitted ops rdt xs"
proof (induction xs arbitrary: out k)
  case Nil
  then show ?case by (simp add: emitted_def map_filter_simps)
next
  case (Cons x xs)
  show ?case
  proof (cases "process_reading ops rdt x")
    case (Inl e)
    with Cons.prems show ?thesis by simp
  next
    case (Inr r)
    show ?thesis
    proof (cases r)
      case None
      with Inr Cons.prems have "readings_loop ops rdt xs (out, k) = Inr (out', k')" by simp
      from Cons.IH [OF this] Inr None
      show ?thesis by (simp add: emitted_def map_filter_simps)
    next
      case (Some d)
      with Inr Cons.prems
      have "readings_loop ops rdt xs (out @ [d], k + 1) = Inr (out', k')" by simp
      from Cons.IH [OF this] Inr Some
      show ?thesis by (simp add: emitted_def map_filter_simps)
    qed
  qed
qed

lemma falsy_sized_iter: "py_len v = Inr n \<Longrightarrow> \<not> truthy ops v \<Longrightarrow> py_iter v = Inr []"
  by (cases v) auto

lemma truthy_sized_iter:
  "py_len v = Inr n \<Longrightarrow> truthy ops v \<Longrightarrow> \<exists>xs. py_iter v = Inr xs \<and> xs \<noteq> []"
  by (cases v) auto

lemma sized_iter_length: "py_len v = Inr n \<Longrightarrow> py_iter v = Inr xs \<Longrightarrow> length xs = n"
  by (cases v) auto

lemma process_record_Inr:
  assumes "process_record ops p (pd, dts) = Inr (pd', dts')"
  shows "dts' = dts @ filter (truthy ops) [period_datetime p]
       \<and> pd' = pd \<lparr> records := records pd @ [parsed_record ops p],
                total_strikes := total_strikes pd
                  + length (filter (both_coerce ops) (period_readings p)),
                records_with_lightning := records_with_lightning pd
                  + (if period_readings p = [] then 0 else 1) \<rparr>"
proof -
  from assms obtain dt upd item st ot rds n where
    dt: "py_get p (ascii ''datetime'') JNull = Inr dt" and
    upd: "py_get p (ascii ''updatedTimestamp'') JNull = Inr upd" and
    item: "py_get p (ascii ''item'') (JDict []) = Inr item" and
    st: "py_get item (ascii ''isStationData'') (JBool False) = Inr st" and
    ot: "py_get item (ascii ''type'') (JStr (ascii ''unknown'')) = Inr ot" and
    rds: "py_get item (ascii ''readings'') (JList []) = Inr rds" and
    n: "py_len rds = Inr n" and
    rest: "(if truthy ops rds then
       ebind (py_iter rds) (\<lambda>items.
       ebind (readings_loop ops dt items ([], total_strikes pd)) (\<lambda>res.
         Inr (pd \<lparr> records := records pd @ [\<lparr> datetime = dt, updated_timestamp = upd,
                          is_station_data = st, observation_type = ot,
                          readings_count = n, readings = [] \<rparr> \<lparr> readings := fst res \<rparr>],
                       total_strikes := snd res,
                       records_with_lightning := records_with_lightning pd + 1 \<rparr>,
              if truthy ops dt then dts @ [dt] else dts)))
     else
       Inr (pd \<lparr> records := records pd @ [\<lparr> datetime = dt, updated_timestamp = upd,
                          is_station_data = st, observation_type = ot,
                          readings_count = n, readings = [] \<rparr>] \<rparr>,
            if truthy ops dt then dts @ [dt] else dts)) = Inr (pd', dts')"
    unfolding process_record_def ebind_Inr_iff Let_def prod.case by blast
  have pdt: "period_datetime p = dt"
    by (simp add: period_datetime_def period_field_def dt)
  have fields: "period_field ''updatedTimestamp'' JNull p = upd"
    "item_field ''isStationData'' (JBool False) p = st"
    "item_field ''type'' (JStr (ascii ''unknown'')) p = ot"
    by (simp_all add: period_field_def item_field_def upd item st ot)
  show ?thesis
  proof (cases "truthy ops rds")
    case False
    from falsy_sized_iter [OF n False] have pr: "period_readings p = []"
      by (simp add: period_readings_def item rds)
    from falsy_sized_iter [OF n False] n have "n = 0"
      using sized_iter_length by fastforce
    with rest False pdt fields pr show ?thesis
      by (auto simp: parsed_record_def emitted_def map_filter_simps)
  next
    case True
    from truthy_sized_iter [OF n True] obtain xs where xs: "py_iter rds = Inr xs" "xs \<noteq> []"
      by blast
    then have pr: "period_readings p = xs"
      by (simp add: period_readings_def item rds)
    from rest True xs obtain out k where
      loop: "readings_loop ops dt xs ([], total_strikes pd) = Inr (out, k)" and
      eq: "pd' = pd \<lparr> records := records pd @ [\<lparr> datetime = dt, updated_timestamp = upd,
                          is_station_data = st, observation_type = ot,
                          readings_count = n, readings = out \<rparr>],
                       total_strikes := k,
                       records_with_lightning := records_with_lightning pd + 1 \<rparr>"
        and d: "dts' = (if truthy ops dt then dts @ [dt] else dts)"
      by (auto simp: ebind_Inr_iff)
    from readings_loop_out [OF loop] readings_loop_count [OF loop] eq d pr pdt xs fields
      sized_iter_length [OF n xs(1)]
    show ?thesis by (auto simp: parsed_record_def)
  qed
qed

lemma records_loop_Inr:
  "records_loop ops ps (pd, dts) = Inr (pd', dts') \<Longrightarrow>
     dts' = dts @ filter (truthy ops) (map period_datetime ps)
     \<and> pd' = pd \<lparr> records := records pd @ map (parsed_record ops) ps,
                total_strikes := total_strikes pd + sum_list (map (coerced_in_period ops) ps),
                records_with_lightning := records_with_lightning pd
                  + length (filter (\<lambda>p. period_readings p \<noteq> []) ps) \<rparr>"
proof (induction ps arbitrary: pd dts)
  case Nil
  then show ?case by simp
next
  case (Cons p ps)
  from Cons.prems obtain pd1 dts1 where
    step: "process_record ops p (pd, dts) = Inr (pd1, dts1)" and
    rest: "records_loop ops ps (pd1, dts1) = Inr (pd', dts')"
    by (auto split: sum.splits)
  from process_record_Inr [OF step] Cons.IH [OF rest]
  show ?case by (simp add: coerced_in_period_def)
qed

lemma parse_lightning_response_Some:
  assumes "parse_lightning_response ops r = Inr (Some s)"
  shows "records s = map (parsed_record ops) (batch_periods r)"
    and "total_strikes s = sum_list (map (coerced_in_period ops) (batch_periods r))"
    and "records_with_lightning s
           = length (filter (\<lambda>p. period_readings p \<noteq> []) (batch_periods r))"
    and "if timestamps ops r = []
         then time_range_earliest s = JNull \<and> time_range_latest s = JNull
         else py_min ops (timestamps ops r) = Inr (time_range_earliest s)
            \<and> py_max ops (timestamps ops r) = Inr (time_range_latest s)"
proof -
  from assms obtain code msg data tok recs n ps res where
    data: "py_get r (ascii ''data'') (JDict []) = Inr data" and
    recs: "py_get data (ascii ''records'') (JList []) = Inr recs" and
    ps: "py_iter recs = Inr ps" and
    loop: "records_loop ops ps
             (\<lparr> api_status = code, error_message = msg, pagination_token = tok,
                records = [], total_strikes = 0, records_with_lightning = 0,
                time_range_earliest = JNull, time_range_latest = JNull \<rparr>, []) = Inr res" and
    fin: "(case res of (parsed, all_datetimes) \<Rightarrow>
              if all_datetimes \<noteq> [] then
                ebind (py_min ops all_datetimes) (\<lambda>earliest.
                ebind (py_max ops all_datetimes) (\<lambda>latest.
                  Inr (Some (parsed \<lparr> time_range_earliest := earliest,
                                      time_range_latest := latest \<rparr>))))
              else Inr (Some parsed)) = Inr (Some s)"
    unfolding parse_lightning_response_def ebind_Inr_iff
    by (auto split: if_splits simp: ebind_Inr_iff)
  have bp: "batch_periods r = ps"
    by (simp add: batch_periods_def data recs ps)
  obtain pd dts where res: "res = (pd, dts)" by (cases res)
  note L = records_loop_Inr [OF loop [unfolded res]]
  from L have dts: "dts = timestamps ops r" by (simp add: timestamps_def bp)
  show "records s = map (parsed_record ops) (batch_periods r)"
    using fin L unfolding res bp by (auto split: if_splits simp: ebind_Inr_iff)
  show "total_strikes s = sum_list (map (coerced_in_period ops) (batch_periods r))"
    using fin L unfolding res bp by (auto split: if_splits simp: ebind_Inr_iff)
  show "records_with_lightning s
           = length (filter (\<lambda>p. period_readings p \<noteq> []) (batch_periods r))"
    using fin L unfolding res bp by (auto split: if_splits simp: ebind_Inr_iff)
  show "if timestamps ops r = []
         then time_range_earliest s = JNull \<and> time_range_latest s = JNull
         else py_min ops (timestamps ops r) = Inr (time_range_earliest s)
            \<and> py_max ops (timestamps ops r) = Inr (time_range_latest s)"
    using fin L unfolding res dts [symmetric]
    by (auto split: if_splits simp: ebind_Inr_iff)
qed

lemma min_from_strings:
  "min_from ops (JStr m) (map JStr ts) = Inr (JStr (Min (set (m # ts))))"
proof -
  have "min_from ops (JStr m) (map JStr ts) = Inr (JStr (fold min ts m))"
  proof (induction ts arbitrary: m)
    case Nil
    then show ?case by simp
  next
    case (Cons t ts)
    have "min_from ops (JStr m) (map JStr (t # ts))
            = min_from ops (JStr (min t m)) (map JStr ts)"
      by (auto simp: min_def)
    also have "\<dots> = Inr (JStr (fold min ts (min t m)))" by (rule Cons)
    finally show ?case by simp
  qed
  then show ?thesis by (simp only: Min.set_eq_fold)
qed

lemma max_from_strings:
  "max_from ops (JStr m) (map JStr ts) = Inr (JStr (Max (set (m # ts))))"
proof -
  have "max_from ops (JStr m) (map JStr ts) = Inr (JStr (fold max ts m))"
  proof (induction ts arbitrary: m)
    case Nil
    then show ?case by simp
  next
    case (Cons t ts)
    have "max_from ops (JStr m) (map JStr (t # ts))
            = max_from ops (JStr (max t m)) (map JStr ts)"
      by (auto simp: max_def)
    also have "\<dots> = Inr (JStr (fold max ts (max t m)))" by (rule Cons)
    finally show ?case by simp
  qed
  then show ?thesis by (simp only: Max.set_eq_fold)
qed

lemma py_min_strings:
  "ts \<noteq> [] \<Longrightarrow> py_min ops (map JStr ts) = Inr (JStr (Min (set ts)))"
proof (cases ts)
  case (Cons t ts')
  show ?thesis unfolding Cons list.map py_min.simps by (rule min_from_strings)
qed simp

lemma py_max_strings:
  "ts \<noteq> [] \<Longrightarrow> py_max ops (map JStr ts) = Inr (JStr (Max (set ts)))"
proof (cases ts)
  case (Cons t ts')
  show ?thesis unfolding Cons list.map py_max.simps by (rule max_from_strings)
qed simp

subsection \<open>The samples, run through the parser\<close>

lemma sample_batch_parsed:
  "parse_lightning_response exact_ops sample_batch = Inr (Some sample_parsed)"
  by (simp add: sample_batch_def sample_parsed_def eval_defs)

lemma invalid_only_batch_parsed:
  "parse_lightning_response exact_ops invalid_only_batch = Inr (Some invalid_only_parsed)"
  by (simp add: invalid_only_batch_def invalid_only_parsed_def eval_defs)

lemma empty_datetime_batch_parsed:
  "parse_lightning_response exact_ops empty_datetime_batch = Inr (Some empty_datetime_parsed)"
  by (simp add: empty_datetime_batch_def empty_datetime_parsed_def eval_defs)

lemma defaulted_batch_parsed:
  "parse_lightning_response exact_ops defaulted_batch = Inr (Some defaulted_parsed)"
  by (simp add: defaulted_batch_def defaulted_parsed_def no_latitude_reading_def
        no_longitude_reading_def eval_defs)

subsection \<open>Counters\<close>

text \<open>
  C1, as stated: \<^verbatim>\<open>records_with_lightning\<close> would be the number of periods with at least
  one reading whose latitude and longitude both convert. It is not: a period whose only
  reading has the latitude \<^verbatim>\<open>"invalid"\<close> is counted by the parser, which increments the
  counter as soon as the list of readings is not empty, before any conversion.
\<close>

theorem records_with_lightning_counterexample:
  "parse_lightning_response exact_ops invalid_only_batch = Inr (Some invalid_only_parsed)
   \<and> records_with_lightning invalid_only_parsed = 1
   \<and> periods_with_coerced_reading exact_ops invalid_only_batch = 0"
  by (simp add: invalid_only_batch_parsed)
     (simp add: invalid_only_batch_def invalid_only_parsed_def eval_defs)

text \<open>
  C1, amended: for every batch that \<^verbatim>\<open>parse_lightning_response\<close> accepts,
  \<^verbatim>\<open>records_with_lightning\<close> is the number of periods whose list of readings is not
  empty, whether or not any of these readings converts.
\<close>

theorem records_with_lightning_counts_nonempty_periods:
  assumes "parse_lightning_response ops api_response = Inr (Some parsed)"
  shows "records_with_lightning parsed = periods_with_readings api_response"
  using parse_lightning_response_Some(3) [OF assms]
  by (simp add: periods_with_readings_def)

theorem records_with_lightning_counts_nonempty_periods_witness:
  "parse_lightning_response exact_ops sample_batch = Inr (Some sample_parsed)
   \<and> records_with_lightning sample_parsed = periods_with_readings sample_batch
   \<and> periods_with_readings sample_batch = 2"
proof -
  have run: "parse_lightning_response exact_ops sample_batch = Inr (Some sample_parsed)"
    by (rule sample_batch_parsed)
  have "periods_with_readings sample_batch = 2"
    by (simp add: sample_batch_def eval_defs)
  with run records_with_lightning_counts_nonempty_periods [OF run] show ?thesis by simp
qed

text \<open>
  C2: for every batch that \<^verbatim>\<open>parse_lightning_response\<close> accepts, \<^verbatim>\<open>total_strikes\<close> is the
  sum over the periods of the number of readings whose latitude and longitude both
  convert to floats.
\<close>

theorem total_strikes_counts_coerced_readings:
  assumes "parse_lightning_response ops api_response = Inr (Some parsed)"
  shows "total_strikes parsed = coerced_in_batch ops api_response"
  using parse_lightning_response_Some(2) [OF assms]
  by (simp add: coerced_in_batch_def)

theorem total_strikes_counts_coerced_readings_witness:
  "parse_lightning_response exact_ops sample_batch = Inr (Some sample_parsed)
   \<and> total_strikes sample_parsed = coerced_in_batch exact_ops sample_batch
   \<and> coerced_in_batch exact_ops sample_batch = 1"
proof -
  have run: "parse_lightning_response exact_ops sample_batch = Inr (Some sample_parsed)"
    by (rule sample_batch_parsed)
  have "coerced_in_batch exact_ops sample_batch = 1"
    by (simp add: sample_batch_def eval_defs)
  with run total_strikes_counts_coerced_readings [OF run] show ?thesis by simp
qed

subsection \<open>Readings that do not convert\<close>

text \<open>
  A reading whose latitude is present and not numeric is skipped without an exception,
  and so is a reading whose latitude converts and whose longitude is present and not
  numeric; the loop then gives what it gives without that reading.
\<close>

lemma py_float_non_numeric:
  "non_numeric ops v \<Longrightarrow> py_float ops v = Inl ValueError \<or> py_float ops v = Inl TypeError"
  by (cases v) auto

lemma non_numeric_reading_skipped:
  assumes "present ''latitude'' reading = Some la"
    and "non_numeric ops la
         \<or> (coerces ops la \<and> (\<exists>lo. present ''longitude'' reading = Some lo \<and> non_numeric ops lo))"
  shows "process_reading ops rdt reading = Inr None"
proof -
  from assms(1) obtain kvs where
    loc: "py_get reading (ascii ''location'') (JDict []) = Inr (JDict kvs)" and
    la: "map_of kvs (ascii ''latitude'') = Some la"
    by (auto simp: present_def split: sum.splits json.splits)
  have "parse_coordinates ops (JDict kvs) = Inr None"
  proof -
    from assms(2) show ?thesis
    proof
      assume "non_numeric ops la"
      from py_float_non_numeric [OF this] la show ?thesis
        by (auto simp: parse_coordinates_def float_pair_def)
    next
      assume "coerces ops la \<and> (\<exists>lo. present ''longitude'' reading = Some lo \<and> non_numeric ops lo)"
      then obtain lo f where f: "py_float ops la = Inr f"
        and lo: "map_of kvs (ascii ''longitude'') = Some lo" and nn: "non_numeric ops lo"
        using loc by (auto simp: coerces_def present_def split: sum.splits)
      from py_float_non_numeric [OF nn] la lo f show ?thesis
        by (auto simp: parse_coordinates_def float_pair_def)
    qed
  qed
  with loc show ?thesis by (simp add: process_reading_def)
qed

lemma skipped_reading_leaves_loop:
  "process_reading ops rdt reading = Inr None \<Longrightarrow>
     readings_loop ops rdt (before @ reading # after) st = readings_loop ops rdt (before @ after) st"
proof (induction before arbitrary: st)
  case Nil
  then show ?case by (cases st) simp
next
  case (Cons x before)
  then show ?case by (cases st) (simp split: sum.splits option.splits)
qed

text \<open>
  C3: a reading whose latitude or longitude is present but not numeric is to be left out
  without an exception. The handler of the parser catches \<^verbatim>\<open>ValueError\<close> and
  \<^verbatim>\<open>TypeError\<close> only: on a reading whose longitude is the string \<^verbatim>\<open>"abc"\<close> and whose
  latitude is the integer \<open>10 ^ 400\<close>, the conversion of the latitude raises
  \<^verbatim>\<open>OverflowError\<close>, which leaves \<^verbatim>\<open>parse_lightning_response\<close>.
\<close>

theorem non_numeric_longitude_raises:
  "present ''longitude'' (reading_at (JInt (10 ^ 400)) (JStr (ascii ''abc''))) = Some (JStr (ascii ''abc''))
   \<and> non_numeric exact_ops (JStr (ascii ''abc''))
   \<and> parse_lightning_response exact_ops overflow_batch = Inl OverflowError"
  by (simp add: overflow_batch_def eval_defs)

subsection \<open>Missing coordinates\<close>

lemma process_reading_emits:
  assumes "py_get x (ascii ''location'') (JDict []) = Inr loc"
    and "float_pair ops loc (ascii ''latitude'') (ascii ''longitude'') = Inr (la, lo)"
  shows "\<exists>d. process_reading ops rdt x = Inr (Some d)
            \<and> reading_latitude d = la \<and> reading_longitude d = lo
            \<and> reading_record_datetime d = rdt"
proof -
  from assms(1) obtain kvs where "x = JDict kvs" by (auto dest: py_get_Inr)
  with assms show ?thesis
    by (simp add: process_reading_def parse_coordinates_def)
qed

lemma emitted_member:
  "x \<in> set xs \<Longrightarrow> process_reading ops rdt x = Inr (Some d) \<Longrightarrow> d \<in> set (emitted ops rdt xs)"
  by (induction xs) (auto simp: emitted_def split: option.splits sum.splits)

lemma extract_coordinates_fst:
  "fst (extract_coordinates ops (Some parsed)) = all_readings parsed"
  by (simp add: extract_coordinates_def all_readings_def Let_def)

lemma coord_data_own_datetime:
  "reading_record_datetime d = t \<Longrightarrow> coord_data t d = d"
  by (simp add: coord_data_def)

lemma emitted_reading_extracted:
  assumes "parse_lightning_response ops api_response = Inr (Some parsed)"
    and "period \<in> set (batch_periods api_response)"
    and "reading \<in> set (period_readings period)"
    and "process_reading ops (period_datetime period) reading = Inr (Some d)"
    and "reading_record_datetime d = period_datetime period"
  shows "d \<in> set (fst (extract_coordinates ops (Some parsed)))"
proof -
  from emitted_member [OF assms(3,4)]
  have "d \<in> set (readings (parsed_record ops period))"
    by (simp add: parsed_record_def)
  then have "coord_data (datetime (parsed_record ops period)) d
               \<in> set (map (coord_data (datetime (parsed_record ops period)))
                        (readings (parsed_record ops period)))"
    by simp
  moreover have "coord_data (datetime (parsed_record ops period)) d = d"
    using assms(5) by (simp add: coord_data_own_datetime parsed_record_def)
  ultimately show ?thesis
    using assms(2) parse_lightning_response_Some(1) [OF assms(1)]
    unfolding extract_coordinates_fst all_readings_def by auto
qed

lemma defaulted_reading_extracted:
  assumes parsed: "parse_lightning_response ops api_response = Inr (Some parsed)"
    and period: "period \<in> set (batch_periods api_response)"
    and reading: "reading \<in> set (period_readings period)"
    and loc: "py_get reading (ascii ''location'') (JDict []) = Inr loc"
    and pair: "float_pair ops loc (ascii ''latitude'') (ascii ''longitude'') = Inr (la, lo)"
  shows "\<exists>c \<in> set (fst (extract_coordinates ops (Some parsed))).
           reading_latitude c = la \<and> reading_longitude c = lo
           \<and> reading_record_datetime c = period_datetime period"
proof -
  from process_reading_emits [OF loc pair, of "period_datetime period"]
  obtain d where d: "process_reading ops (period_datetime period) reading = Inr (Some d)"
    "reading_latitude d = la" "reading_longitude d = lo"
    "reading_record_datetime d = period_datetime period"
    by blast
  from emitted_reading_extracted [OF parsed period reading d(1) d(4)] d(2,3,4)
  show ?thesis by blast
qed

text \<open>
  C4, as stated: every reading whose location omits the latitude would be emitted with
  latitude 0.0. It is not when the longitude that is present does not convert: the reading
  \<^verbatim>\<open>{"location": {"longitude": "abc"}}\<close> omits the latitude and is dropped, and
  \<^verbatim>\<open>extract_coordinates\<close> returns no point.
\<close>

theorem missing_latitude_counterexample:
  "omits ''latitude'' missing_latitude_reading
   \<and> period_readings (period_with ''2024-01-15T10:00:00+08:00'' [missing_latitude_reading])
       = [missing_latitude_reading]
   \<and> parse_lightning_response exact_ops missing_latitude_batch
       = Inr (Some missing_latitude_parsed)
   \<and> fst (extract_coordinates exact_ops (Some missing_latitude_parsed)) = []"
  by (simp add: missing_latitude_batch_def missing_latitude_parsed_def
        missing_latitude_reading_def eval_defs)

text \<open>
  C4, amended: in a batch that \<^verbatim>\<open>parse_lightning_response\<close> accepts, a reading whose
  location omits the latitude and whose longitude converts to a float is not dropped: it
  is emitted with the latitude \<^verbatim>\<open>float(0)\<close> and its own longitude, and
  \<^verbatim>\<open>extract_coordinates\<close> returns it; likewise for a reading that omits the longitude and
  whose latitude converts. (\<open>zero\<close> is the float \<^verbatim>\<open>float(0)\<close>.)
\<close>

theorem missing_coordinate_defaults_to_zero:
  assumes "parse_lightning_response ops api_response = Inr (Some parsed)"
    and "period \<in> set (batch_periods api_response)"
    and "reading \<in> set (period_readings period)"
    and "float_of_int ops 0 = Some zero"
  shows "(omits ''latitude'' reading \<longrightarrow>
            (\<forall>v lo. coordinate_value ''longitude'' reading = Some v \<and> py_float ops v = Inr lo \<longrightarrow>
               (\<exists>c \<in> set (fst (extract_coordinates ops (Some parsed))).
                  reading_latitude c = zero \<and> reading_longitude c = lo
                  \<and> reading_record_datetime c = period_datetime period)))
       \<and> (omits ''longitude'' reading \<longrightarrow>
            (\<forall>v la. coordinate_value ''latitude'' reading = Some v \<and> py_float ops v = Inr la \<longrightarrow>
               (\<exists>c \<in> set (fst (extract_coordinates ops (Some parsed))).
                  reading_latitude c = la \<and> reading_longitude c = zero
                  \<and> reading_record_datetime c = period_datetime period)))"
proof (intro conjI impI allI)
  fix v lo
  assume om: "omits ''latitude'' reading"
    and v: "coordinate_value ''longitude'' reading = Some v \<and> py_float ops v = Inr lo"
  from om obtain kvs where
    loc: "py_get reading (ascii ''location'') (JDict []) = Inr (JDict kvs)" and
    none: "map_of kvs (ascii ''latitude'') = None"
    by (auto simp: omits_def split: sum.splits json.splits)
  from v loc have "py_get (JDict kvs) (ascii ''longitude'') (JInt 0) = Inr v" "py_float ops v = Inr lo"
    by (auto simp: coordinate_value_def)
  with none assms(4)
  have "float_pair ops (JDict kvs) (ascii ''latitude'') (ascii ''longitude'') = Inr (zero, lo)"
    by (simp add: float_pair_def)
  from defaulted_reading_extracted [OF assms(1,2,3) loc this]
  show "\<exists>c \<in> set (fst (extract_coordinates ops (Some parsed))).
          reading_latitude c = zero \<and> reading_longitude c = lo
          \<and> reading_record_datetime c = period_datetime period" .
next
  fix v la
  assume om: "omits ''longitude'' reading"
    and v: "coordinate_value ''latitude'' reading = Some v \<and> py_float ops v = Inr la"
  from om obtain kvs where
    loc: "py_get reading (ascii ''location'') (JDict []) = Inr (JDict kvs)" and
    none: "map_of kvs (ascii ''longitude'') = None"
    by (auto simp: omits_def split: sum.splits json.splits)
  from v loc have "py_get (JDict kvs) (ascii ''latitude'') (JInt 0) = Inr v" "py_float ops v = Inr la"
    by (auto simp: coordinate_value_def)
  with none assms(4)
  have "float_pair ops (JDict kvs) (ascii ''latitude'') (ascii ''longitude'') = Inr (la, zero)"
    by (simp add: float_pair_def)
  from defaulted_reading_extracted [OF assms(1,2,3) loc this]
  show "\<exists>c \<in> set (fst (extract_coordinates ops (Some parsed))).
          reading_latitude c = la \<and> reading_longitude c = zero
          \<and> reading_record_datetime c = period_datetime period" .
qed

theorem missing_coordinate_defaults_to_zero_witness:
  "parse_lightning_response exact_ops defaulted_batch = Inr (Some defaulted_parsed)
   \<and> period_with ''2024-01-15T10:00:00+08:00'' [no_latitude_reading, no_longitude_reading]
       \<in> set (batch_periods defaulted_batch)
   \<and> no_latitude_reading
       \<in> set (period_readings
                (period_with ''2024-01-15T10:00:00+08:00''
                   [no_latitude_reading, no_longitude_reading]))
   \<and> float_of_int exact_ops 0 = Some 0
   \<and> omits ''latitude'' no_latitude_reading
   \<and> coordinate_value ''longitude'' no_latitude_reading = Some (JStr (ascii ''103.8198''))
   \<and> py_float exact_ops (JStr (ascii ''103.8198'')) = Inr (1038198 / 10000)
   \<and> (\<exists>c \<in> set (fst (extract_coordinates exact_ops (Some defaulted_parsed))).
         reading_latitude c = 0 \<and> reading_longitude c = 1038198 / 10000
         \<and> reading_record_datetime c
             = period_datetime
                 (period_with ''2024-01-15T10:00:00+08:00''
                    [no_latitude_reading, no_longitude_reading]))"
proof -
  let ?p = "period_with ''2024-01-15T10:00:00+08:00'' [no_latitude_reading, no_longitude_reading]"
  have run: "parse_lightning_response exact_ops defaulted_batch = Inr (Some defaulted_parsed)"
    by (rule defaulted_batch_parsed)
  have p: "?p \<in> set (batch_periods defaulted_batch)"
    by (simp add: defaulted_batch_def batch_of_def batch_periods_def)
  have r: "no_latitude_reading \<in> set (period_readings ?p)"
    by (simp add: period_with_def period_readings_def)
  have z: "float_of_int exact_ops 0 = Some 0"
    by (simp add: exact_ops_def)
  have om: "omits ''latitude'' no_latitude_reading"
    by (simp add: omits_def no_latitude_reading_def)
  have v: "coordinate_value ''longitude'' no_latitude_reading = Some (JStr (ascii ''103.8198''))"
    by (simp add: coordinate_value_def no_latitude_reading_def)
  have f: "py_float exact_ops (JStr (ascii ''103.8198'')) = Inr (1038198 / 10000)"
    by (simp add: eval_defs)
  from missing_coordinate_defaults_to_zero [OF run p r z] om v f
  have "\<exists>c \<in> set (fst (extract_coordinates exact_ops (Some defaulted_parsed))).
         reading_latitude c = 0 \<and> reading_longitude c = 1038198 / 10000
         \<and> reading_record_datetime c = period_datetime ?p"
    by blast
  with run p r z om v f show ?thesis by blast
qed

subsection \<open>Time range\<close>

text \<open>
  C8, as stated: \<^verbatim>\<open>earliest\<close> would be the least of the period timestamps that are not
  \<^verbatim>\<open>None\<close>. The parser keeps a timestamp under \<^verbatim>\<open>if record_datetime:\<close>, which also
  rejects the empty string: with the timestamps \<^verbatim>\<open>""\<close> and
  \<^verbatim>\<open>"2024-01-15T10:00:00+08:00"\<close>, both not \<^verbatim>\<open>None\<close>, the least string is \<^verbatim>\<open>""\<close> and the
  parser returns the other one.
\<close>

theorem time_range_counterexample:
  "parse_lightning_response exact_ops empty_datetime_batch = Inr (Some empty_datetime_parsed)
   \<and> non_null_datetimes empty_datetime_batch
       = map JStr [[], ascii ''2024-01-15T10:00:00+08:00'']
   \<and> Min (set [[], ascii ''2024-01-15T10:00:00+08:00'']) = []
   \<and> time_range_earliest empty_datetime_parsed = JStr (ascii ''2024-01-15T10:00:00+08:00'')"
  by (simp add: empty_datetime_batch_parsed)
     (simp add: empty_datetime_batch_def empty_datetime_parsed_def eval_defs)

text \<open>
  C8, amended: in the summary returned by \<^verbatim>\<open>parse_lightning_response\<close>, when the period
  timestamps that pass the truth test (neither \<^verbatim>\<open>None\<close> nor empty) are strings,
  \<^verbatim>\<open>earliest\<close> and \<^verbatim>\<open>latest\<close> are their least and greatest element in the lexicographic
  order of strings, and both are \<^verbatim>\<open>None\<close> when there is no such timestamp. Only the
  timestamps of the periods enter; those of the readings do not.
\<close>

theorem time_range_is_string_min_max:
  assumes "parse_lightning_response ops api_response = Inr (Some parsed)"
    and "timestamps ops api_response = map JStr ts"
  shows "(ts = [] \<longrightarrow> time_range_earliest parsed = JNull \<and> time_range_latest parsed = JNull)
       \<and> (ts \<noteq> [] \<longrightarrow> time_range_earliest parsed = JStr (Min (set ts))
                      \<and> time_range_latest parsed = JStr (Max (set ts)))"
proof (cases "ts = []")
  case True
  with parse_lightning_response_Some(4) [OF assms(1)] assms(2) show ?thesis by simp
next
  case False
  with parse_lightning_response_Some(4) [OF assms(1)] assms(2)
  have "py_min ops (map JStr ts) = Inr (time_range_earliest parsed)"
    "py_max ops (map JStr ts) = Inr (time_range_latest parsed)"
    by simp_all
  with py_min_strings [OF False, of ops] py_max_strings [OF False, of ops] False
  show ?thesis by simp
qed

theorem time_range_is_string_min_max_witness:
  "parse_lightning_response exact_ops sample_batch = Inr (Some sample_parsed)
   \<and> timestamps exact_ops sample_batch
       = map JStr [ascii ''2024-01-15T10:00:00+08:00'', ascii ''2024-01-15T09:30:00+08:00'',
                   ascii ''2024-01-15T10:30:00+08:00'']
   \<and> time_range_earliest sample_parsed
       = JStr (Min (set [ascii ''2024-01-15T10:00:00+08:00'', ascii ''2024-01-15T09:30:00+08:00'',
                         ascii ''2024-01-15T10:30:00+08:00'']))
   \<and> time_range_latest sample_parsed
       = JStr (Max (set [ascii ''2024-01-15T10:00:00+08:00'', ascii ''2024-01-15T09:30:00+08:00'',
                         ascii ''2024-01-15T10:30:00+08:00'']))
   \<and> time_range_earliest sample_parsed = JStr (ascii ''2024-01-15T09:30:00+08:00'')
   \<and> time_range_latest sample_parsed = JStr (ascii ''2024-01-15T10:30:00+08:00'')"
proof -
  have run: "parse_lightning_response exact_ops sample_batch = Inr (Some sample_parsed)"
    by (rule sample_batch_parsed)
  have ts: "timestamps exact_ops sample_batch
       = map JStr [ascii ''2024-01-15T10:00:00+08:00'', ascii ''2024-01-15T09:30:00+08:00'',
                   ascii ''2024-01-15T10:30:00+08:00'']"
    by (simp add: sample_batch_def eval_defs)
  have vals: "time_range_earliest sample_parsed = JStr (ascii ''2024-01-15T09:30:00+08:00'')"
    "time_range_latest sample_parsed = JStr (ascii ''2024-01-15T10:30:00+08:00'')"
    by (simp_all add: sample_parsed_def parsed_of_def)
  from time_range_is_string_min_max [OF run ts] run ts vals show ?thesis by simp
qed

subsection \<open>Extraction of the coordinates\<close>

text \<open>
  C9: \<^verbatim>\<open>extract_coordinates\<close> returns every reading of the parsed records, in their
  order, whatever its position: the list is the concatenation of the readings of the
  records, its length is the number of readings, each reading is in it with its latitude
  and longitude, and the list does not depend on the comparison with the bounds, which
  only yields the count written to the log.
\<close>

theorem extract_coordinates_keeps_every_reading:
  "fst (extract_coordinates ops (Some parsed)) = all_readings parsed
   \<and> length (fst (extract_coordinates ops (Some parsed))) = readings_total parsed
   \<and> (\<forall>record \<in> set (records parsed). \<forall>reading \<in> set (readings record).
        \<exists>c \<in> set (fst (extract_coordinates ops (Some parsed))).
          reading_latitude c = reading_latitude reading
          \<and> reading_longitude c = reading_longitude reading
          \<and> reading_type c = reading_type reading
          \<and> reading_description c = reading_description reading
          \<and> reading_datetime c = reading_datetime reading)
   \<and> fst (extract_coordinates ops' (Some parsed)) = fst (extract_coordinates ops (Some parsed))
   \<and> (fst (extract_coordinates ops (Some parsed)) \<noteq> [] \<longrightarrow>
        snd (extract_coordinates ops (Some parsed))
          = Some (valid_count ops (fst (extract_coordinates ops (Some parsed)))))"
proof (intro conjI)
  show "fst (extract_coordinates ops (Some parsed)) = all_readings parsed"
    by (rule extract_coordinates_fst)
  show "length (fst (extract_coordinates ops (Some parsed))) = readings_total parsed"
    unfolding extract_coordinates_fst all_readings_def readings_total_def
    by (simp add: length_concat comp_def)
  show "\<forall>record \<in> set (records parsed). \<forall>reading \<in> set (readings record).
        \<exists>c \<in> set (fst (extract_coordinates ops (Some parsed))).
          reading_latitude c = reading_latitude reading
          \<and> reading_longitude c = reading_longitude reading
          \<and> reading_type c = reading_type reading
          \<and> reading_description c = reading_description reading
          \<and> reading_datetime c = reading_datetime reading"
  proof (intro ballI)
    fix rec reading
    assume "rec \<in> set (records parsed)" "reading \<in> set (readings rec)"
    then have "coord_data (datetime rec) reading \<in> set (all_readings parsed)"
      unfolding all_readings_def by auto
    then show "\<exists>c \<in> set (fst (extract_coordinates ops (Some parsed))).
          reading_latitude c = reading_latitude reading
          \<and> reading_longitude c = reading_longitude reading
          \<and> reading_type c = reading_type reading
          \<and> reading_description c = reading_description reading
          \<and> reading_datetime c = reading_datetime reading"
      unfolding extract_coordinates_fst
      by (intro bexI [of _ "coord_data (datetime rec) reading"])
         (simp_all add: coord_data_def)
  qed
  show "fst (extract_coordinates ops' (Some parsed)) = fst (extract_coordinates ops (Some parsed))"
    by (simp only: extract_coordinates_fst)
  show "fst (extract_coordinates ops (Some parsed)) \<noteq> [] \<longrightarrow>
        snd (extract_coordinates ops (Some parsed))
          = Some (valid_count ops (fst (extract_coordinates ops (Some parsed))))"
    by (simp add: extract_coordinates_def Let_def)
qed

theorem extract_coordinates_keeps_every_reading_witness:
  "fst (extract_coordinates exact_ops (Some far_point_parsed))
     = [strike (13521 / 10000) (1038198 / 10000) ''2024-01-15T10:00:00+08:00'',
        strike (407128 / 10000) (- 740060 / 10000) ''2024-01-15T10:00:00+08:00'']
   \<and> \<not> in_bounds exact_ops (singapore_bounds exact_ops) (407128 / 10000) (- 740060 / 10000)
   \<and> snd (extract_coordinates exact_ops (Some far_point_parsed)) = Some 1
   \<and> length (fst (extract_coordinates exact_ops (Some far_point_parsed)))
       = readings_total far_point_parsed
   \<and> readings_total far_point_parsed = 2"
proof -
  have l: "all_readings far_point_parsed
     = [strike (13521 / 10000) (1038198 / 10000) ''2024-01-15T10:00:00+08:00'',
        strike (407128 / 10000) (- 740060 / 10000) ''2024-01-15T10:00:00+08:00'']"
    by (simp add: far_point_parsed_def eval_defs)
  have b: "\<not> in_bounds exact_ops (singapore_bounds exact_ops) (407128 / 10000) (- 740060 / 10000)"
    by (simp add: eval_defs)
  have n: "readings_total far_point_parsed = 2"
    by (simp add: far_point_parsed_def eval_defs)
  have c: "snd (extract_coordinates exact_ops (Some far_point_parsed)) = Some 1"
    by (simp add: far_point_parsed_def eval_defs)
  note kept = extract_coordinates_keeps_every_reading [of exact_ops far_point_parsed exact_ops]
  from kept have e: "fst (extract_coordinates exact_ops (Some far_point_parsed))
                      = all_readings far_point_parsed"
    by (rule conjunct1)
  from kept have len: "length (fst (extract_coordinates exact_ops (Some far_point_parsed)))
                        = readings_total far_point_parsed"
    by blast
  from e l have first: "fst (extract_coordinates exact_ops (Some far_point_parsed))
     = [strike (13521 / 10000) (1038198 / 10000) ''2024-01-15T10:00:00+08:00'',
        strike (407128 / 10000) (- 740060 / 10000) ''2024-01-15T10:00:00+08:00'']"
    by (rule trans)
  from first b c len n show ?thesis by blast
qed

section \<open>Properties of the geocoder\<close>

subsection \<open>Cleaning and searching\<close>

lemma space_not_digit: "is_space c \<Longrightarrow> \<not> is_digit c"
  by (auto simp: is_space_def is_digit_def)

lemma filter_dropWhile_disjoint:
  "(\<And>x. Q x \<Longrightarrow> \<not> P x) \<Longrightarrow> filter P (dropWhile Q xs) = filter P xs"
  by (induction xs) auto

lemma remove_non_digits_strip: "remove_non_digits (strip s) = remove_non_digits s"
proof -
  have "filter is_digit (strip s) = filter is_digit (rev (dropWhile is_space (rev s)))"
    unfolding strip_def by (rule filter_dropWhile_disjoint) (rule space_not_digit)
  also have "\<dots> = rev (filter is_digit (dropWhile is_space (rev s)))"
    by (simp add: rev_filter)
  also have "filter is_digit (dropWhile is_space (rev s)) = filter is_digit (rev s)"
    by (rule filter_dropWhile_disjoint) (rule space_not_digit)
  finally show ?thesis by (simp add: remove_non_digits_def rev_filter)
qed

lemma digit_is_decimal: "is_digit c \<Longrightarrow> is_decimal cls c"
  by (simp add: is_decimal_def is_digit_def)

lemma validate_postal_code_iff:
  "s \<noteq> [] \<Longrightarrow> validate_postal_code cls s \<longleftrightarrow> length (remove_non_digits s) = 6"
  by (auto simp: validate_postal_code_def Let_def remove_non_digits_strip)
     (simp add: remove_non_digits_def list_all_iff digit_is_decimal)

lemma clean_postal_code_eq:
  "s \<noteq> [] \<Longrightarrow> length (remove_non_digits s) = 6 \<Longrightarrow>
     clean_postal_code s = Some (remove_non_digits s)"
  by (auto simp: clean_postal_code_def Let_def remove_non_digits_strip)
     (simp add: remove_non_digits_def list_all_iff)

lemma after_run:
  "6 \<le> length s \<Longrightarrow>
     (case drop 6 s of [] \<Rightarrow> True | d # _ \<Rightarrow> \<not> is_word_char cls d)
       \<longleftrightarrow> (6 = length s \<or> \<not> is_word_char cls (s ! 6))"
proof (cases "drop 6 s")
  case Nil
  assume "6 \<le> length s"
  with Nil show ?thesis by simp
next
  case (Cons d ds)
  then have "s ! 6 = d" by (rule nth_via_drop)
  moreover from Cons have "6 < length s"
    by (metis drop_eq_Nil list.distinct(1) not_le)
  ultimately show ?thesis using Cons by simp
qed

lemma run_at_zero:
  "s \<noteq> [] \<Longrightarrow>
   (0 < length s \<and> 0 + 6 \<le> length s \<and> list_all (is_decimal cls) (take 6 (drop 0 s))
        \<and> (if (0::nat) = 0 then \<not> pw else \<not> is_word_char cls (s ! (0 - 1)))
        \<and> (0 + 6 = length s \<or> \<not> is_word_char cls (s ! (0 + 6))))
   \<longleftrightarrow> (\<not> pw \<and> 6 \<le> length s \<and> list_all (is_decimal cls) (take 6 s)
       \<and> (case drop 6 s of [] \<Rightarrow> True | d # _ \<Rightarrow> \<not> is_word_char cls d))"
  using after_run [of s] by auto

lemma run_at_Suc:
  "(Suc i + 6 \<le> length (c # cs) \<and> list_all (is_decimal cls) (take 6 (drop (Suc i) (c # cs)))
        \<and> (if Suc i = 0 then \<not> pw else \<not> is_word_char cls ((c # cs) ! (Suc i - 1)))
        \<and> (Suc i + 6 = length (c # cs) \<or> \<not> is_word_char cls ((c # cs) ! (Suc i + 6))))
   \<longleftrightarrow> (i + 6 \<le> length cs \<and> list_all (is_decimal cls) (take 6 (drop i cs))
        \<and> (if i = 0 then \<not> is_word_char cls c else \<not> is_word_char cls (cs ! (i - 1)))
        \<and> (i + 6 = length cs \<or> \<not> is_word_char cls (cs ! (i + 6))))"
  by (simp add: nth_Cons' add.commute)

lemma search_from_iff:
  "search_from cls pw s \<noteq> None \<longleftrightarrow>
     (\<exists>i<length s. i + 6 \<le> length s \<and> list_all (is_decimal cls) (take 6 (drop i s))
        \<and> (if i = 0 then \<not> pw else \<not> is_word_char cls (s ! (i - 1)))
        \<and> (i + 6 = length s \<or> \<not> is_word_char cls (s ! (i + 6))))"
  (is "_ \<longleftrightarrow> (\<exists>i<length s. ?A pw s i)")
proof (induction s arbitrary: pw)
  case Nil
  then show ?case by simp
next
  case (Cons c cs)
  let ?now = "\<not> pw \<and> 6 \<le> length (c # cs) \<and> list_all (is_decimal cls) (take 6 (c # cs))
       \<and> (case drop 6 (c # cs) of [] \<Rightarrow> True | d # _ \<Rightarrow> \<not> is_word_char cls d)"
  have split: "(\<exists>i<length (c # cs). P i) \<longleftrightarrow> (0 < length (c # cs) \<and> P 0) \<or> (\<exists>i<length cs. P (Suc i))"
    for P :: "nat \<Rightarrow> bool"
    by (auto simp: less_Suc_eq_0_disj)
  have "(\<exists>i<length (c # cs). ?A pw (c # cs) i)
          \<longleftrightarrow> (0 < length (c # cs) \<and> ?A pw (c # cs) 0)
              \<or> (\<exists>i<length cs. ?A pw (c # cs) (Suc i))"
    by (rule split)
  also have "(0 < length (c # cs) \<and> ?A pw (c # cs) 0) \<longleftrightarrow> ?now"
    by (rule run_at_zero) simp
  also have "(\<exists>i<length cs. ?A pw (c # cs) (Suc i))
               \<longleftrightarrow> (\<exists>i<length cs. ?A (is_word_char cls c) cs i)"
    by (simp only: run_at_Suc)
  also have "\<dots> \<longleftrightarrow> search_from cls (is_word_char cls c) cs \<noteq> None"
    by (simp only: Cons.IH)
  finally have "(\<exists>i<length (c # cs). ?A pw (c # cs) i)
                  \<longleftrightarrow> ?now \<or> search_from cls (is_word_char cls c) cs \<noteq> None" .
  moreover have "search_from cls pw (c # cs) \<noteq> None
                  \<longleftrightarrow> ?now \<or> search_from cls (is_word_char cls c) cs \<noteq> None"
    by (simp only: search_from.simps split: if_split) blast
  ultimately show ?case by (rule ssubst)
qed

lemma standalone_at_alt:
  "standalone_at (is_decimal cls) cls s i \<longleftrightarrow>
     (i + 6 \<le> length s \<and> list_all (is_decimal cls) (take 6 (drop i s))
        \<and> (if i = 0 then \<not> False else \<not> is_word_char cls (s ! (i - 1)))
        \<and> (i + 6 = length s \<or> \<not> is_word_char cls (s ! (i + 6))))"
  by (cases "i = 0") (simp_all add: standalone_at_def)

lemma search_postal_iff: "search_postal cls s \<noteq> None \<longleftrightarrow> standalone_six_digits (is_decimal cls) cls s"
proof -
  have "standalone_six_digits (is_decimal cls) cls s \<longleftrightarrow> (\<exists>i<length s. standalone_at (is_decimal cls) cls s i)"
    by (auto simp: standalone_six_digits_def list_ex_iff)
  also have "\<dots> \<longleftrightarrow> search_from cls False s \<noteq> None"
    by (simp only: search_from_iff standalone_at_alt)
  finally show ?thesis by (simp add: search_postal_def)
qed

subsection \<open>Results of the geocoding functions\<close>

lemma fill_result_Inr:
  assumes "fill_result ops cls scan missing r0 g = Inr r"
    and "\<not> success r0" "latitude r0 = None" "longitude r0 = None" "error r0 = None"
  shows "result_invariant r \<and> query_type r = query_type r0 \<and> query r = query r0"
proof (cases g)
  case None
  with assms show ?thesis by (auto simp: fill_result_def result_invariant_def)
next
  case (Some v)
  show ?thesis
  proof (cases "truthy ops v")
    case False
    with Some assms show ?thesis by (auto simp: fill_result_def result_invariant_def)
  next
    case True
    with Some assms(1) obtain coords where
      c: "extract_coordinates_geo ops v = Inr coords" and
      rest: "(case coords of
              None \<Rightarrow> Inr (r0 \<lparr> error := Some (ascii ''Failed to extract valid coordinates'') \<rparr>)
            | Some (lat, lon) \<Rightarrow>
                ebind (py_get v (ascii ''ADDRESS'') (JStr [])) (\<lambda>a.
                ebind (py_get v (ascii ''BUILDING'') (JStr [])) (\<lambda>b.
                ebind (py_get v (ascii ''ROAD'') (JStr [])) (\<lambda>rd.
                let result' = r0 \<lparr> success := True, latitude := Some lat,
                                       longitude := Some lon, address := a,
                                       building := b, road := rd \<rparr>
                in if \<not> scan then Inr result'
                   else (case a of
                           JStr txt \<Rightarrow>
                             (case search_postal cls txt of
                                Some code \<Rightarrow> Inr (result' \<lparr> postal_code := Some code \<rparr>)
                              | None \<Rightarrow> Inr result')
                         | _ \<Rightarrow> Inl TypeError))))) = Inr r"
      by (auto simp: fill_result_def ebind_Inr_iff)
    show ?thesis
    proof (cases coords)
      case None
      with rest have "r = r0 \<lparr> error := Some (ascii ''Failed to extract valid coordinates'') \<rparr>"
        by simp
      with assms(2-) show ?thesis by (simp add: result_invariant_def)
    next
      case (Some p)
      obtain lat lon where p: "p = (lat, lon)" by (cases p)
      from rest obtain a b rd where
        fin: "(let result' = r0 \<lparr> success := True, latitude := Some lat,
                                       longitude := Some lon, address := a,
                                       building := b, road := rd \<rparr>
                in if \<not> scan then Inr result'
                   else (case a of
                           JStr txt \<Rightarrow>
                             (case search_postal cls txt of
                                Some code \<Rightarrow> Inr (result' \<lparr> postal_code := Some code \<rparr>)
                              | None \<Rightarrow> Inr result')
                         | _ \<Rightarrow> Inl TypeError)) = Inr r"
        unfolding Some p option.case prod.case ebind_Inr_iff by blast
      let ?R = "r0 \<lparr> success := True, latitude := Some lat, longitude := Some lon,
                     address := a, building := b, road := rd \<rparr>"
      from fin have "r = ?R \<or> (\<exists>code. r = ?R \<lparr> postal_code := Some code \<rparr>)"
        unfolding Let_def by (cases scan; cases a) (auto split: option.splits)
      with assms(2-) show ?thesis by (auto simp: result_invariant_def)
    qed
  qed
qed

lemma strip_Nil [simp]: "strip [] = []"
  by (simp add: strip_def)

lemma create_result_dict_fields:
  "\<not> success (create_result_dict q t)" "latitude (create_result_dict q t) = None"
  "longitude (create_result_dict q t) = None" "error (create_result_dict q t) = None"
  "query_type (create_result_dict q t) = t" "query (create_result_dict q t) = q"
  by (simp_all add: create_result_dict_def)

lemma geocode_postal_code_Inr:
  assumes "geocode_postal_code ops cls net s n = (Inr r, n')"
  shows "result_invariant r \<and> query_type r = ''postal_code''"
proof (cases "clean_postal_code s")
  case None
  with assms show ?thesis
    by (auto simp: geocode_postal_code_def result_invariant_def create_result_dict_def)
next
  case (Some code)
  obtain g m where call: "make_api_call net code n = (g, m)" by (cases "make_api_call net code n")
  with Some assms have
    "fill_result ops cls False ''Postal code not found in OneMap database''
       ((create_result_dict (JStr s) ''postal_code'') \<lparr> postal_code := Some code \<rparr>) g = Inr r"
    by (simp add: geocode_postal_code_def)
  from fill_result_Inr [OF this] show ?thesis
    by (simp add: create_result_dict_fields)
qed

lemma geocode_address_Inr:
  assumes "geocode_address ops cls net s n = (Inr r, n')"
  shows "result_invariant r \<and> query_type r = ''address''"
proof (cases "s = [] \<or> strip s = []")
  case True
  with assms show ?thesis
    by (auto simp: geocode_address_def result_invariant_def create_result_dict_def)
next
  case False
  obtain g m where call: "make_api_call net (strip s) n = (g, m)"
    by (cases "make_api_call net (strip s) n")
  with False assms have
    "fill_result ops cls True ''Address not found in OneMap database''
       (create_result_dict (JStr s) ''address'') g = Inr r"
    by (simp add: geocode_address_def)
  from fill_result_Inr [OF this] show ?thesis
    by (simp add: create_result_dict_fields)
qed

lemma geocode_building_Inr:
  assumes "geocode_building ops cls net s n = (Inr r, n')"
  shows "result_invariant r \<and> query_type r = ''building''"
proof (cases "s = [] \<or> strip s = []")
  case True
  with assms show ?thesis
    by (auto simp: geocode_building_def result_invariant_def create_result_dict_def)
next
  case False
  obtain g m where call: "make_api_call net (strip s) n = (g, m)"
    by (cases "make_api_call net (strip s) n")
  with False assms have
    "fill_result ops cls True ''Building not found in OneMap database''
       (create_result_dict (JStr s) ''building'') g = Inr r"
    by (simp add: geocode_building_def)
  from fill_result_Inr [OF this] show ?thesis
    by (simp add: create_result_dict_fields)
qed

lemma invalid_query_fields:
  "result_invariant (invalid_query q)" "query_type (invalid_query q) = ''unknown''"
  "error (invalid_query q) = Some (ascii ''Invalid query: empty or non-string input'')"
  "\<not> success (invalid_query q)"
  by (simp_all add: invalid_query_def create_result_dict_def result_invariant_def)

lemma geocode_blank:
  "blank_or_non_string q \<Longrightarrow> geocode ops cls net q n = (Inr (invalid_query q), n)"
  by (cases q) simp_all

lemma geocode_dispatch:
  assumes "\<not> blank_or_non_string q"
  shows "geocode ops cls net q n =
     (if length (remove_non_digits (query_text q)) = 6
      then geocode_postal_code ops cls net (strip (query_text q)) n
      else if standalone_six_digits (is_decimal cls) cls (strip (query_text q))
      then geocode_address ops cls net (strip (query_text q)) n
      else geocode_building ops cls net (strip (query_text q)) n)"
proof -
  from assms obtain s where q: "q = JStr s" and ne1: "strip s \<noteq> []"
    by (cases q) auto
  from ne1 have "s \<noteq> []" by auto
  note ne = ne1 this
  from validate_postal_code_iff [OF ne(1)]
  have v: "validate_postal_code cls (strip s) \<longleftrightarrow> length (remove_non_digits s) = 6"
    by (simp add: remove_non_digits_strip)
  show ?thesis unfolding q
    by (simp only: geocode.simps query_text.simps Let_def v search_postal_iff ne if_False
          simp_thms)
qed

subsection \<open>Shape and classification of the results\<close>

text \<open>
  C5: every result returned by \<^verbatim>\<open>geocode\<close>, through whichever of its paths, is either a
  success with both coordinates and no error, or a failure with an error text and no
  coordinate; a failure is never without an error, and a coordinate is never present
  without success.
\<close>

theorem geocode_result_invariant:
  assumes "geocode ops cls net q n = (Inr r, n')"
  shows "result_invariant r
       \<and> (\<not> success r \<longrightarrow> error r \<noteq> None)
       \<and> (latitude r \<noteq> None \<or> longitude r \<noteq> None \<longrightarrow> success r)"
proof -
  have "result_invariant r"
  proof (cases "blank_or_non_string q")
    case True
    from geocode_blank [OF True, of ops cls net n] assms show ?thesis
      by (auto simp: invalid_query_fields)
  next
    case False
    from geocode_dispatch [OF False, of ops cls net n] assms show ?thesis
      by (auto split: if_splits
            dest: geocode_postal_code_Inr [OF sym] geocode_address_Inr [OF sym]
              geocode_building_Inr [OF sym])
  qed
  then show ?thesis by (auto simp: result_invariant_def)
qed

theorem geocode_result_invariant_witness:
  "geocode exact_ops sample_classes no_network (JStr (ascii ''not-a-real-place-xyz'')) 0
     = (Inr not_a_place, 1)
   \<and> result_invariant not_a_place
   \<and> \<not> success not_a_place
   \<and> error not_a_place = Some (ascii ''Building not found in OneMap database'')
   \<and> latitude not_a_place = None \<and> longitude not_a_place = None"
proof -
  have run: "geocode exact_ops sample_classes no_network (JStr (ascii ''not-a-real-place-xyz'')) 0
               = (Inr not_a_place, 1)"
    by (simp add: eval_defs)
  have "\<not> success not_a_place"
    "error not_a_place = Some (ascii ''Building not found in OneMap database'')"
    "latitude not_a_place = None" "longitude not_a_place = None"
    by (simp_all add: not_a_place_def create_result_dict_def)
  with run geocode_result_invariant [OF run] show ?thesis by blast
qed

text \<open>
  C6, as stated: a query that reduces to six digits once its non-digit characters are
  removed would be a postal code, a query with a standalone six-digit run an address, any
  other a building, with one notion of digit. For the query made of six fullwidth digits
  this gives the kind \<^verbatim>\<open>building\<close> when a digit is an ASCII digit (no digit is left, and
  there is no run), and the kind \<^verbatim>\<open>postal_code\<close> when a digit is any decimal digit.
  \<^verbatim>\<open>geocode\<close> answers with the kind \<^verbatim>\<open>address\<close>: it removes what is not in \<^verbatim>\<open>[0-9]\<close>, which
  leaves nothing, and then searches with \<^verbatim>\<open>\d\<close>, which matches the six characters.
\<close>

theorem classification_counterexample:
  "kind_of is_digit is_digit sample_classes fullwidth_query = ''building''
   \<and> kind_of (is_decimal sample_classes) (is_decimal sample_classes) sample_classes
         fullwidth_query = ''postal_code''
   \<and> geocode exact_ops sample_classes no_network fullwidth_query 0 = (Inr fullwidth_result, 1)
   \<and> query_type fullwidth_result = ''address''"
  by (simp add: kind_of_def standalone_six_digits_def standalone_at_def eval_defs)

text \<open>
  C6, amended: \<^verbatim>\<open>geocode\<close> classifies its query by first match in this order. A query that
  is not a string, or a string that is empty once surrounding whitespace is stripped,
  yields the kind \<^verbatim>\<open>unknown\<close> with an error, without any request or table lookup (the
  state is unchanged, whatever the network). Otherwise a query that reduces to exactly six
  ASCII digits once every character outside \<^verbatim>\<open>[0-9]\<close> is removed is handled as a postal
  code; otherwise a query whose stripped text contains a standalone run of six decimal
  digits of any script (six characters matched by \<^verbatim>\<open>\d\<close>, with no word character right
  before or after) is handled as an address; any other query is handled as a building.
  The kind of a returned result is the kind of its query.
\<close>

theorem geocode_classification:
  "(blank_or_non_string q \<longrightarrow>
      geocode ops cls net q n = (Inr (invalid_query q), n)
      \<and> query_type (invalid_query q) = ''unknown''
      \<and> error (invalid_query q) = Some (ascii ''Invalid query: empty or non-string input''))
   \<and> (\<not> blank_or_non_string q \<and> length (remove_non_digits (query_text q)) = 6 \<longrightarrow>
      geocode ops cls net q n = geocode_postal_code ops cls net (strip (query_text q)) n)
   \<and> (\<not> blank_or_non_string q \<and> length (remove_non_digits (query_text q)) \<noteq> 6
        \<and> standalone_six_digits (is_decimal cls) cls (strip (query_text q)) \<longrightarrow>
      geocode ops cls net q n = geocode_address ops cls net (strip (query_text q)) n)
   \<and> (\<not> blank_or_non_string q \<and> length (remove_non_digits (query_text q)) \<noteq> 6
        \<and> \<not> standalone_six_digits (is_decimal cls) cls (strip (query_text q)) \<longrightarrow>
      geocode ops cls net q n = geocode_building ops cls net (strip (query_text q)) n)
   \<and> (\<forall>r n'. geocode ops cls net q n = (Inr r, n') \<longrightarrow> query_type r = query_kind cls q)"
proof (cases "blank_or_non_string q")
  case True
  from geocode_blank [OF True, of ops cls net n] True show ?thesis
    by (simp add: invalid_query_fields query_kind_def kind_of_def)
next
  case False
  note d = geocode_dispatch [OF False, of ops cls net n]
  have kind: "query_type r = query_kind cls q" if "geocode ops cls net q n = (Inr r, n')" for r n'
    using that False d
    by (auto simp: query_kind_def kind_of_def remove_non_digits_def split: if_splits
          dest: geocode_postal_code_Inr geocode_address_Inr geocode_building_Inr)
  from False d kind show ?thesis by simp
qed

theorem geocode_classification_witness:
  "blank_or_non_string (JStr [] :: rat json)
   \<and> geocode exact_ops sample_classes no_network (JStr []) 0 = (Inr (invalid_query (JStr [])), 0)
   \<and> blank_or_non_string (JNull :: rat json)
   \<and> geocode exact_ops sample_classes no_network JNull 0 = (Inr (invalid_query JNull), 0)
   \<and> blank_or_non_string (JStr (ascii '' '') :: rat json)
   \<and> geocode exact_ops sample_classes no_network (JStr (ascii '' '')) 0
       = (Inr (invalid_query (JStr (ascii '' ''))), 0)
   \<and> query_kind sample_classes (JStr (ascii ''238874'') :: rat json) = ''postal_code''
   \<and> geocode exact_ops sample_classes no_network (JStr (ascii ''238874'')) 0
       = geocode_postal_code exact_ops sample_classes no_network (ascii ''238874'') 0
   \<and> query_kind sample_classes (JStr (ascii ''123 Example Rd, Singapore 238874'') :: rat json)
       = ''address''
   \<and> geocode exact_ops sample_classes no_network
         (JStr (ascii ''123 Example Rd, Singapore 238874'')) 0
       = geocode_address exact_ops sample_classes no_network
           (ascii ''123 Example Rd, Singapore 238874'') 0
   \<and> query_kind sample_classes fullwidth_query = ''address''
   \<and> geocode exact_ops sample_classes no_network fullwidth_query 0
       = geocode_address exact_ops sample_classes no_network (query_text fullwidth_query) 0
   \<and> query_kind sample_classes (JStr (ascii ''Marina Bay Sands'') :: rat json) = ''building''
   \<and> geocode exact_ops sample_classes no_network (JStr (ascii ''Marina Bay Sands'')) 0
       = geocode_building exact_ops sample_classes no_network (ascii ''Marina Bay Sands'') 0"
proof -
  let ?g = "geocode exact_ops sample_classes no_network"
  have k: "query_kind sample_classes (JStr (ascii ''238874'') :: rat json) = ''postal_code''"
    "query_kind sample_classes (JStr (ascii ''123 Example Rd, Singapore 238874'') :: rat json)
       = ''address''"
    "query_kind sample_classes fullwidth_query = ''address''"
    "query_kind sample_classes (JStr (ascii ''Marina Bay Sands'') :: rat json) = ''building''"
    by (simp_all add: query_kind_def kind_of_def standalone_six_digits_def standalone_at_def
          eval_defs)
  have s: "strip (ascii ''238874'') = ascii ''238874''"
    "strip (ascii ''123 Example Rd, Singapore 238874'') = ascii ''123 Example Rd, Singapore 238874''"
    "strip (query_text fullwidth_query) = query_text fullwidth_query"
    "strip (ascii ''Marina Bay Sands'') = ascii ''Marina Bay Sands''"
    by (simp_all add: strip_def is_space_def ascii_def fullwidth_query_def)
  have bl: "blank_or_non_string (JStr (ascii '' '') :: rat json)"
    by (simp add: strip_def is_space_def ascii_def)
  have h1: "\<not> blank_or_non_string (JStr (ascii ''238874'') :: rat json)
            \<and> length (remove_non_digits (query_text (JStr (ascii ''238874'') :: rat json))) = 6"
    by (simp add: eval_defs)
  have h2: "\<not> blank_or_non_string (JStr (ascii ''123 Example Rd, Singapore 238874'') :: rat json)
            \<and> length (remove_non_digits
                 (query_text (JStr (ascii ''123 Example Rd, Singapore 238874'') :: rat json))) \<noteq> 6
            \<and> standalone_six_digits (is_decimal sample_classes) sample_classes
                 (strip (query_text
                    (JStr (ascii ''123 Example Rd, Singapore 238874'') :: rat json)))"
    by (simp add: standalone_six_digits_def standalone_at_def eval_defs)
  have h3: "\<not> blank_or_non_string fullwidth_query
            \<and> length (remove_non_digits (query_text fullwidth_query)) \<noteq> 6
            \<and> standalone_six_digits (is_decimal sample_classes) sample_classes
                 (strip (query_text fullwidth_query))"
    by (simp add: standalone_six_digits_def standalone_at_def eval_defs)
  have h4: "\<not> blank_or_non_string (JStr (ascii ''Marina Bay Sands'') :: rat json)
            \<and> length (remove_non_digits
                 (query_text (JStr (ascii ''Marina Bay Sands'') :: rat json))) \<noteq> 6
            \<and> \<not> standalone_six_digits (is_decimal sample_classes) sample_classes
                 (strip (query_text (JStr (ascii ''Marina Bay Sands'') :: rat json)))"
    by (simp add: standalone_six_digits_def standalone_at_def eval_defs)
  from geocode_classification [of "JStr []" exact_ops sample_classes no_network 0]
  have a: "?g (JStr []) 0 = (Inr (invalid_query (JStr [])), 0)"
    by simp
  from geocode_classification [of JNull exact_ops sample_classes no_network 0]
  have b: "?g JNull 0 = (Inr (invalid_query JNull), 0)"
    by simp
  from geocode_classification [of "JStr (ascii '' '')" exact_ops sample_classes no_network 0] bl
  have b': "?g (JStr (ascii '' '')) 0 = (Inr (invalid_query (JStr (ascii '' ''))), 0)"
    by blast
  from geocode_classification [of "JStr (ascii ''238874'')" exact_ops sample_classes no_network 0]
    h1
  have c: "?g (JStr (ascii ''238874'')) 0
       = geocode_postal_code exact_ops sample_classes no_network (strip (ascii ''238874'')) 0"
    by (simp only: query_text.simps) blast
  from geocode_classification
    [of "JStr (ascii ''123 Example Rd, Singapore 238874'')" exact_ops sample_classes no_network 0]
    h2
  have d: "?g (JStr (ascii ''123 Example Rd, Singapore 238874'')) 0
       = geocode_address exact_ops sample_classes no_network
           (strip (ascii ''123 Example Rd, Singapore 238874'')) 0"
    by (simp only: query_text.simps) blast
  from geocode_classification [of fullwidth_query exact_ops sample_classes no_network 0] h3
  have e: "?g fullwidth_query 0
       = geocode_address exact_ops sample_classes no_network
           (strip (query_text fullwidth_query)) 0"
    by blast
  from geocode_classification
    [of "JStr (ascii ''Marina Bay Sands'')" exact_ops sample_classes no_network 0] h4
  have f: "?g (JStr (ascii ''Marina Bay Sands'')) 0
       = geocode_building exact_ops sample_classes no_network
           (strip (ascii ''Marina Bay Sands'')) 0"
    by (simp only: query_text.simps) blast
  have t: "blank_or_non_string (JStr [] :: rat json)" "blank_or_non_string (JNull :: rat json)"
    by simp_all
  from a b b' c d e f k bl t show ?thesis unfolding s by blast
qed

text \<open>
  C7: for the query \<^verbatim>\<open>"238874"\<close>, an entry of the static table, \<^verbatim>\<open>geocode\<close> sends no
  request (the state is unchanged, whatever the network) and returns a success whose
  latitude is 1.304167 and whose longitude is 103.833611, given that the two strings of
  the table parse to the floats of these literals and that the bounds check accepts them.
\<close>

theorem table_hit_without_request:
  assumes "float_of_str ops (ascii ''1.304167'') = Some (float_lit ops (1304167 / 1000000))"
    and "float_of_str ops (ascii ''103.833611'') = Some (float_lit ops (103833611 / 1000000))"
    and "in_bounds ops (SINGAPORE_BOUNDS ops)
           (float_lit ops (1304167 / 1000000)) (float_lit ops (103833611 / 1000000))"
  shows "geocode ops cls net (JStr (ascii ''238874'')) n =
           (Inr \<lparr> query = JStr (ascii ''238874''), query_type = ''postal_code'', success = True,
                  latitude = Some (float_lit ops (1304167 / 1000000)),
                  longitude = Some (float_lit ops (103833611 / 1000000)),
                  address = JStr (ascii ''ION Orchard, 2 Orchard Turn, Singapore 238874''),
                  building = JStr (ascii ''ION Orchard''), road = JStr (ascii ''Orchard Turn''),
                  postal_code = Some (ascii ''238874''), error = None \<rparr>, n)"
proof -
  have s: "strip (ascii ''238874'') = ascii ''238874''"
    by (simp add: strip_def is_space_def ascii_def)
  have r: "remove_non_digits (ascii ''238874'') = ascii ''238874''"
    by (simp add: remove_non_digits_def is_digit_def ascii_def)
  have ne: "ascii ''238874'' \<noteq> []" by simp
  have v: "validate_postal_code cls (ascii ''238874'')"
    using validate_postal_code_iff [OF ne, of cls] by (simp add: r) (simp add: ascii_def)
  have c: "clean_postal_code (ascii ''238874'') = Some (ascii ''238874'')"
    using clean_postal_code_eq [OF ne] by (simp add: r) (simp add: ascii_def)
  have call: "make_api_call net (ascii ''238874'') n
     = (Some (sample_entry ''ION Orchard, 2 Orchard Turn, Singapore 238874''
                ''ION Orchard'' ''Orchard Turn'' ''1.304167'' ''103.833611''), n)"
    by (simp add: make_api_call_def s SAMPLE_GEOCODING_DATA_def)
  have x: "extract_coordinates_geo ops
             (sample_entry ''ION Orchard, 2 Orchard Turn, Singapore 238874''
                ''ION Orchard'' ''Orchard Turn'' ''1.304167'' ''103.833611'')
           = Inr (Some (float_lit ops (1304167 / 1000000), float_lit ops (103833611 / 1000000)))"
    using assms by (simp add: extract_coordinates_geo_def float_pair_def sample_entry_def)
  have g: "py_get (sample_entry a b r la lo) (ascii ''ADDRESS'') d = Inr (JStr (ascii a))"
    "py_get (sample_entry a b r la lo) (ascii ''BUILDING'') d = Inr (JStr (ascii b))"
    "py_get (sample_entry a b r la lo) (ascii ''ROAD'') d = Inr (JStr (ascii r))"
    "truthy ops (sample_entry a b r la lo)"
    for a b r la lo and d :: "'a json"
    by (simp_all add: sample_entry_def)
  show ?thesis
    by (simp add: Let_def s v c call geocode_postal_code_def fill_result_def x g
          create_result_dict_def)
qed

theorem table_hit_without_request_witness:
  "float_of_str exact_ops (ascii ''1.304167'') = Some (float_lit exact_ops (1304167 / 1000000))
   \<and> float_of_str exact_ops (ascii ''103.833611'')
       = Some (float_lit exact_ops (103833611 / 1000000))
   \<and> in_bounds exact_ops (SINGAPORE_BOUNDS exact_ops)
        (float_lit exact_ops (1304167 / 1000000)) (float_lit exact_ops (103833611 / 1000000))
   \<and> geocode exact_ops sample_classes no_network (JStr (ascii ''238874'')) 0
       = (Inr ion_orchard, 0)"
proof -
  have a: "float_of_str exact_ops (ascii ''1.304167'')
             = Some (float_lit exact_ops (1304167 / 1000000))"
    by (simp add: eval_defs)
  have b: "float_of_str exact_ops (ascii ''103.833611'')
             = Some (float_lit exact_ops (103833611 / 1000000))"
    by (simp add: eval_defs)
  have c: "in_bounds exact_ops (SINGAPORE_BOUNDS exact_ops)
        (float_lit exact_ops (1304167 / 1000000)) (float_lit exact_ops (103833611 / 1000000))"
    by (simp add: eval_defs)
  have l: "float_lit exact_ops = (\<lambda>q. q)" by (simp add: exact_ops_def)
  from table_hit_without_request [OF a b c, of sample_classes no_network 0]
  have "geocode exact_ops sample_classes no_network (JStr (ascii ''238874'')) 0
          = (Inr ion_orchard, 0)"
    by (simp add: ion_orchard_def l)
  with a b c show ?thesis by blast
qed

subsection \<open>Batches\<close>








end
